theory Spec2Isabelle
  imports Complex_Main "HOL-Library.AList"
begin

section \<open>Python values, dictionaries and exceptions\<close>

text \<open>
  The integration layer of \<^verbatim>\<open>semantic_graph/ai_research_agent_integration.py\<close> moves
  loosely typed payload dictionaries around.  A payload value is one of Python's
  \<^verbatim>\<open>None\<close>, \<^verbatim>\<open>bool\<close>, \<^verbatim>\<open>int\<close>, \<^verbatim>\<open>float\<close>, \<^verbatim>\<open>str\<close>, \<^verbatim>\<open>list\<close> or a \<^verbatim>\<open>dict\<close> with string keys.
  Floats are carried as reals: the layer only passes them on, multiplies a duration by
  1000 and subtracts two clock readings; rounding is not modelled.  A dictionary is an
  association list with distinct keys in insertion order.

  The theory follows the module: the values and the exceptions of the Python runtime, the
  computations (state passing with exceptions as values), the integration object with its
  seven normalizers, the wrappers it installs on the host's objects, and its statistics
  and health queries.  The properties come after the definitions.
\<close>

datatype pyval =
    PNone
  | PBool bool
  | PInt int
  | PFloat real
  | PStr string
  | PList "pyval list"
  | PDict "(string \<times> pyval) list"

type_synonym pydict = "(string \<times> pyval) list"

text \<open>
  An exception object: its class name and the text \<^verbatim>\<open>str(e)\<close> gives.  Only instances of
  subclasses of \<^verbatim>\<open>Exception\<close> are modelled, which are the ones \<^verbatim>\<open>except Exception\<close>
  catches.
\<close>

datatype exn = Exn (exn_class: string) (exn_text: string)

definition dict_get :: "('k \<times> 'v) list \<Rightarrow> 'k \<Rightarrow> 'v \<Rightarrow> 'v" where
  \<comment> \<open>\<^verbatim>\<open>d.get(k, default)\<close>\<close>
  "dict_get d k dflt = (case map_of d k of None \<Rightarrow> dflt | Some v \<Rightarrow> v)"

definition dict_set :: "('k \<times> 'v) list \<Rightarrow> 'k \<Rightarrow> 'v \<Rightarrow> ('k \<times> 'v) list" where
  \<comment> \<open>\<^verbatim>\<open>d[k] = v\<close>: an existing key keeps its place, a new key goes last\<close>
  "dict_set d k v = AList.update k v d"

definition dict_merge :: "('k \<times> 'v) list \<Rightarrow> ('k \<times> 'v) list \<Rightarrow> ('k \<times> 'v) list" where
  \<comment> \<open>\<^verbatim>\<open>{**d, **kw}\<close>\<close>
  "dict_merge d kw = fold (\<lambda>(k, v) acc. dict_set acc k v) kw d"

definition squote :: "string \<Rightarrow> string" where
  "squote s = [CHR 0x27] @ s @ [CHR 0x27]"

fun type_name :: "pyval \<Rightarrow> string" where
  "type_name PNone = ''NoneType''"
| "type_name (PBool b) = ''bool''"
| "type_name (PInt i) = ''int''"
| "type_name (PFloat x) = ''float''"
| "type_name (PStr s) = ''str''"
| "type_name (PList xs) = ''list''"
| "type_name (PDict d) = ''dict''"

fun py_truthy :: "pyval \<Rightarrow> bool" where
  "py_truthy PNone = False"
| "py_truthy (PBool b) = b"
| "py_truthy (PInt i) = (i \<noteq> 0)"
| "py_truthy (PFloat x) = (x \<noteq> 0)"
| "py_truthy (PStr s) = (s \<noteq> [])"
| "py_truthy (PList xs) = (xs \<noteq> [])"
| "py_truthy (PDict d) = (d \<noteq> [])"

fun py_len :: "pyval \<Rightarrow> exn + nat" where
  \<comment> \<open>\<^verbatim>\<open>len(v)\<close>\<close>
  "py_len (PStr s) = Inr (length s)"
| "py_len (PList xs) = Inr (length xs)"
| "py_len (PDict d) = Inr (length d)"
| "py_len v = Inl (Exn ''TypeError'' (''object of type '' @ squote (type_name v) @ '' has no len()''))"

fun py_get :: "pyval \<Rightarrow> string \<Rightarrow> pyval \<Rightarrow> exn + pyval" where
  \<comment> \<open>\<^verbatim>\<open>v.get(k, default)\<close> on a value that need not be a dictionary\<close>
  "py_get (PDict d) k dflt = Inr (dict_get d k dflt)"
| "py_get v k dflt =
     Inl (Exn ''AttributeError'' (squote (type_name v) @ '' object has no attribute '' @ squote ''get''))"

fun py_last :: "pyval \<Rightarrow> exn + pyval" where
  \<comment> \<open>\<^verbatim>\<open>v[-1]\<close>\<close>
  "py_last (PList xs) = (if xs = [] then Inl (Exn ''IndexError'' ''list index out of range'') else Inr (last xs))"
| "py_last (PStr s) = (if s = [] then Inl (Exn ''IndexError'' ''string index out of range'') else Inr (PStr [last s]))"
| "py_last (PDict d) = Inl (Exn ''KeyError'' ''-1'')"
| "py_last v = Inl (Exn ''TypeError'' (squote (type_name v) @ '' object is not subscriptable''))"

fun py_mul_int :: "pyval \<Rightarrow> nat \<Rightarrow> exn + pyval" where
  \<comment> \<open>\<^verbatim>\<open>v * n\<close> for a non-negative integer literal \<^verbatim>\<open>n\<close>\<close>
  "py_mul_int (PInt i) n = Inr (PInt (i * int n))"
| "py_mul_int (PBool b) n = Inr (PInt (of_bool b * int n))"
| "py_mul_int (PFloat x) n = Inr (PFloat (x * real n))"
| "py_mul_int (PStr s) n = Inr (PStr (concat (replicate n s)))"
| "py_mul_int (PList xs) n = Inr (PList (concat (replicate n xs)))"
| "py_mul_int v n =
     Inl (Exn ''TypeError'' (''unsupported operand type(s) for *: '' @ squote (type_name v) @ '' and '' @ squote ''int''))"

definition digit_char :: "nat \<Rightarrow> char" where
  "digit_char n = ''0123456789'' ! (n mod 10)"

fun show_nat :: "nat \<Rightarrow> string" where
  "show_nat n = (if n < 10 then [digit_char n] else show_nat (n div 10) @ [digit_char (n mod 10)])"

declare show_nat.simps [simp del]

definition show_int :: "int \<Rightarrow> string" where
  "show_int i = (if i < 0 then CHR ''-'' # show_nat (nat (- i)) else show_nat (nat i))"

section \<open>Computations: state and exceptions\<close>

text \<open>
  A Python call runs on a state and either returns a value or raises; either way the
  state changes made so far stay.
\<close>

type_synonym ('s, 'a) comp = "'s \<Rightarrow> (exn + 'a) \<times> 's"

definition py_return :: "'a \<Rightarrow> ('s, 'a) comp" where
  "py_return v = (\<lambda>s. (Inr v, s))"

definition py_raise :: "exn \<Rightarrow> ('s, 'a) comp" where
  "py_raise e = (\<lambda>s. (Inl e, s))"

definition py_pure :: "exn + 'a \<Rightarrow> ('s, 'a) comp" where
  \<comment> \<open>an expression that touches no state but may raise\<close>
  "py_pure r = (\<lambda>s. (r, s))"

definition py_bind :: "('s, 'a) comp \<Rightarrow> ('a \<Rightarrow> ('s, 'b) comp) \<Rightarrow> ('s, 'b) comp" where
  \<comment> \<open>sequencing: an exception of the first statement skips the rest\<close>
  "py_bind m f = (\<lambda>s. case m s of (Inl e, s') \<Rightarrow> (Inl e, s') | (Inr v, s') \<Rightarrow> f v s')"

definition py_try :: "('s, 'a) comp \<Rightarrow> (exn \<Rightarrow> ('s, 'a) comp) \<Rightarrow> ('s, 'a) comp" where
  \<comment> \<open>\<^verbatim>\<open>try: m except Exception as e: h(e)\<close>\<close>
  "py_try m h = (\<lambda>s. case m s of (Inl e, s') \<Rightarrow> h e s' | (Inr v, s') \<Rightarrow> (Inr v, s'))"

section \<open>The integration object and its collaborators\<close>

datatype ingestion_source =
  MEMORY | TOOL_USAGE | RESEARCH_FINDINGS | RETRIEVAL_LOGS | PLANNER_OUTPUTS

datatype hook =
    HandleMemoryOutput | HandleToolUsage | HandleFinding | HandleRetrieval
  | HandlePlanning | HandlePreference | HandleMonitoring

text \<open>
  The state a call runs on: the two dictionaries of the \<^verbatim>\<open>AIResearchAgentIntegration\<close>
  instance, what went to the module's logger (level and message), and the world outside
  the instance (the semantic graph agent, the host agent's objects, the clock).
\<close>

record 'w system =
  integration_hooks :: "(string \<times> hook) list"
  integration_stats :: "(string \<times> int) list"
  logged :: "(string \<times> string) list"
  world :: 'w

text \<open>
  \<^verbatim>\<open>SemanticGraphAgent\<close> is a collaborator whose code lies outside the integration module,
  so its methods are parameters: each runs on the world and returns or raises.  The
  record also carries what the Python runtime supplies: the clock
  (\<^verbatim>\<open>datetime.now()\<close> in seconds and as ISO text), \<^verbatim>\<open>str()\<close> of floats and containers, and
  the \<^verbatim>\<open>.2f\<close> format of a number.
\<close>

record 'w semantic_graph =
  ingest_event :: "ingestion_source \<Rightarrow> pydict \<Rightarrow> int \<Rightarrow> 'w \<Rightarrow> (exn + unit) \<times> 'w"
  enhanced_retrieval :: "pyval \<Rightarrow> pyval \<Rightarrow> pyval \<Rightarrow> pyval \<Rightarrow> pyval \<Rightarrow> 'w \<Rightarrow> (exn + pyval) \<times> 'w"
  enhanced_planning :: "pyval \<Rightarrow> pyval \<Rightarrow> pyval \<Rightarrow> pyval \<Rightarrow> 'w \<Rightarrow> (exn + pyval) \<times> 'w"
  record_user_feedback ::
    "pyval \<Rightarrow> pyval \<Rightarrow> pyval \<Rightarrow> pyval \<Rightarrow> pyval \<Rightarrow> pyval \<Rightarrow> 'w \<Rightarrow> (exn + pyval) \<times> 'w"
  record_operation_time :: "pyval \<Rightarrow> pyval \<Rightarrow> 'w \<Rightarrow> (exn + unit) \<times> 'w"
  record_error :: "pyval \<Rightarrow> 'w \<Rightarrow> (exn + unit) \<times> 'w"
  record_context_event :: "string \<Rightarrow> string \<Rightarrow> real \<Rightarrow> 'w \<Rightarrow> (exn + unit) \<times> 'w"
  get_comprehensive_stats :: "'w \<Rightarrow> (exn + pyval) \<times> 'w"
  get_monitoring_dashboard_data :: "'w \<Rightarrow> (exn + pyval) \<times> 'w"
  process_pending_ingestion :: "'w \<Rightarrow> (exn + unit) \<times> 'w"
  now_seconds :: "'w \<Rightarrow> real"
  now_isoformat :: "'w \<Rightarrow> string"
  str_other :: "pyval \<Rightarrow> string"
  format_2f :: "real \<Rightarrow> string"

definition in_world :: "('w \<Rightarrow> (exn + 'a) \<times> 'w) \<Rightarrow> ('w system, 'a) comp" where
  \<comment> \<open>a call into a collaborator: it sees and changes the world only\<close>
  "in_world f = (\<lambda>s. case f (world s) of (r, w') \<Rightarrow> (r, s\<lparr>world := w'\<rparr>))"

definition log_msg :: "string \<Rightarrow> string \<Rightarrow> ('w system, unit) comp" where
  \<comment> \<open>\<^verbatim>\<open>logger.error(msg)\<close>, \<^verbatim>\<open>logger.info(msg)\<close>\<close>
  "log_msg level msg = (\<lambda>s. (Inr (), s\<lparr>logged := logged s @ [(level, msg)]\<rparr>))"

definition incr_stat :: "string \<Rightarrow> ('w system, unit) comp" where
  \<comment> \<open>\<^verbatim>\<open>self.integration_stats[k] += 1\<close>; a missing key raises \<^verbatim>\<open>KeyError\<close>\<close>
  "incr_stat k = (\<lambda>s. case map_of (integration_stats s) k of
       None \<Rightarrow> (Inl (Exn ''KeyError'' (squote k)), s)
     | Some c \<Rightarrow> (Inr (), s\<lparr>integration_stats := dict_set (integration_stats s) k (c + 1)\<rparr>))"

definition py_str :: "'w semantic_graph \<Rightarrow> pyval \<Rightarrow> string" where
  \<comment> \<open>\<^verbatim>\<open>str(v)\<close>, also what an f-string puts for \<^verbatim>\<open>{v}\<close>\<close>
  "py_str sg v = (case v of
       PStr s \<Rightarrow> s
     | PNone \<Rightarrow> ''None''
     | PBool b \<Rightarrow> (if b then ''True'' else ''False'')
     | PInt i \<Rightarrow> show_int i
     | _ \<Rightarrow> str_other sg v)"

definition py_format_2f :: "'w semantic_graph \<Rightarrow> pyval \<Rightarrow> exn + string" where
  \<comment> \<open>\<^verbatim>\<open>format(v, '.2f')\<close>\<close>
  "py_format_2f sg v = (case v of
       PFloat x \<Rightarrow> Inr (format_2f sg x)
     | PInt i \<Rightarrow> Inr (format_2f sg (of_int i))
     | PBool b \<Rightarrow> Inr (format_2f sg (of_bool b))
     | PStr s \<Rightarrow> Inl (Exn ''ValueError'' (''Unknown format code '' @ squote ''f'' @ '' for object of type '' @ squote ''str''))
     | _ \<Rightarrow> Inl (Exn ''TypeError'' (''unsupported format string passed to '' @ type_name v @ ''.__format__'')))"

definition register_integration_hooks :: "(string \<times> hook) list \<Rightarrow> (string \<times> hook) list" where
  "register_integration_hooks hooks =
     (let hooks = dict_set hooks ''memory_writes'' HandleMemoryOutput;
          hooks = dict_set hooks ''tool_usage_logs'' HandleToolUsage;
          hooks = dict_set hooks ''findings_capture'' HandleFinding;
          hooks = dict_set hooks ''retrieval_calls'' HandleRetrieval;
          hooks = dict_set hooks ''plan_generation'' HandlePlanning;
          hooks = dict_set hooks ''preference_logging'' HandlePreference;
          hooks = dict_set hooks ''monitoring'' HandleMonitoring
      in hooks)"

definition init_integration :: "'w \<Rightarrow> 'w system" where
  \<comment> \<open>\<^verbatim>\<open>AIResearchAgentIntegration.__init__\<close>\<close>
  "init_integration w =
     \<lparr> integration_hooks = register_integration_hooks [],
       integration_stats =
         [(''memory_writes'', 0), (''tool_usage_logs'', 0), (''findings_captured'', 0),
          (''retrieval_calls'', 0), (''plan_generations'', 0), (''preference_logs'', 0),
          (''monitoring_events'', 0)],
       logged = [(''INFO'', ''AI Research Agent - Semantic Graph integration initialized'')],
       world = w \<rparr>"

definition read_world :: "('w \<Rightarrow> 'a) \<Rightarrow> ('w system, 'a) comp" where
  \<comment> \<open>reading the clock or an attribute of a host object\<close>
  "read_world f = (\<lambda>s. (Inr (f (world s)), s))"

section \<open>The seven normalizers\<close>

definition handle_memory_output :: "'w semantic_graph \<Rightarrow> pydict \<Rightarrow> ('w system, pyval) comp" where
  "handle_memory_output sg memory_data =
     py_try
       (let content = dict_get memory_data ''content'' (PStr []);
            importance = dict_get memory_data ''importance'' (PFloat 0.5);
            memory_type = dict_get memory_data ''memory_type'' (PStr ''general'');
            session_id = dict_get memory_data ''session_id'' (PStr ''default'')
        in py_bind (read_world (now_isoformat sg)) (\<lambda>timestamp.
           let ingestion_data =
                 [(''content'', content), (''importance'', importance),
                  (''memory_type'', memory_type), (''session_id'', session_id),
                  (''timestamp'', PStr timestamp), (''source'', PStr ''memory_manager'')];
               ingestion_data = (case map_of memory_data ''concepts'' of
                   None \<Rightarrow> ingestion_data
                 | Some v \<Rightarrow> dict_set ingestion_data ''concepts'' v);
               ingestion_data = (case map_of memory_data ''citations'' of
                   None \<Rightarrow> ingestion_data
                 | Some v \<Rightarrow> dict_set ingestion_data ''citations'' v)
           in py_bind (in_world (ingest_event sg MEMORY ingestion_data 2)) (\<lambda>_.
              py_bind (incr_stat ''memory_writes'') (\<lambda>_.
              py_bind (py_pure (py_len content)) (\<lambda>n.
              py_return (PStr (''Memory content ingested into semantic graph: '' @ show_nat n @ '' chars'')))))))
       (\<lambda>e. py_bind (log_msg ''ERROR'' (''Memory output integration failed: '' @ exn_text e)) (\<lambda>_.
             py_return (PStr (''Memory integration error: '' @ exn_text e))))"

definition handle_tool_usage :: "'w semantic_graph \<Rightarrow> pydict \<Rightarrow> ('w system, pyval) comp" where
  "handle_tool_usage sg tool_data =
     py_try
       (let tool_name = dict_get tool_data ''tool_name'' (PStr []);
            tool_input = dict_get tool_data ''tool_input'' (PStr []);
            tool_output = dict_get tool_data ''tool_output'' (PStr []);
            execution_time = dict_get tool_data ''execution_time'' (PFloat 0.0);
            success = dict_get tool_data ''success'' (PBool True)
        in py_bind (read_world (now_isoformat sg)) (\<lambda>timestamp.
           let usage_data =
                 [(''tool_name'', tool_name), (''input'', tool_input), (''output'', tool_output),
                  (''execution_time'', execution_time), (''success'', success),
                  (''timestamp'', PStr timestamp),
                  (''usage_context'', dict_get tool_data ''context'' (PStr ''research''))]
           in py_bind (in_world (ingest_event sg TOOL_USAGE usage_data 1)) (\<lambda>_.
              py_bind (incr_stat ''tool_usage_logs'') (\<lambda>_.
              py_return (PStr (''Tool usage logged: '' @ py_str sg tool_name @ '' -> semantic graph''))))))
       (\<lambda>e. py_bind (log_msg ''ERROR'' (''Tool usage integration failed: '' @ exn_text e)) (\<lambda>_.
             py_return (PStr (''Tool usage integration error: '' @ exn_text e))))"

definition handle_finding :: "'w semantic_graph \<Rightarrow> pydict \<Rightarrow> ('w system, pyval) comp" where
  "handle_finding sg finding_data =
     py_try
       (let finding_content = dict_get finding_data ''finding'' (PStr []);
            step_info = dict_get finding_data ''step_info'' (PDict []);
            confidence = dict_get finding_data ''confidence'' (PFloat 0.5);
            sources = dict_get finding_data ''sources'' (PList []);
            analysis = dict_get finding_data ''analysis'' (PStr [])
        in py_bind (py_pure (py_get step_info ''step_number'' (PInt 0))) (\<lambda>research_step.
           py_bind (read_world (now_isoformat sg)) (\<lambda>timestamp.
           let research_data =
                 [(''finding'', finding_content), (''analysis'', analysis),
                  (''confidence'', confidence), (''sources'', sources),
                  (''step_info'', step_info), (''research_step'', research_step),
                  (''timestamp'', PStr timestamp)]
           in py_bind (in_world (ingest_event sg RESEARCH_FINDINGS research_data 2)) (\<lambda>_.
              py_bind (incr_stat ''findings_captured'') (\<lambda>_.
              py_bind (py_pure (py_len finding_content)) (\<lambda>n.
              py_return (PStr (''Research finding captured: '' @ show_nat n @ '' chars''))))))))
       (\<lambda>e. py_bind (log_msg ''ERROR'' (''Finding capture integration failed: '' @ exn_text e)) (\<lambda>_.
             py_return (PStr (''Finding capture error: '' @ exn_text e))))"

definition handle_retrieval :: "'w semantic_graph \<Rightarrow> pydict \<Rightarrow> ('w system, pyval) comp" where
  "handle_retrieval sg retrieval_data =
     py_try
       (let query = dict_get retrieval_data ''query'' (PStr []);
            query_embedding = dict_get retrieval_data ''query_embedding'' PNone;
            strategy = dict_get retrieval_data ''strategy'' (PStr ''hybrid'');
            top_k = dict_get retrieval_data ''top_k'' (PInt 10);
            node_types = dict_get retrieval_data ''node_types'' PNone
        in py_bind (in_world (enhanced_retrieval sg query query_embedding strategy top_k node_types)) (\<lambda>results.
           py_bind (py_pure (py_get results ''results'' (PList []))) (\<lambda>found.
           py_bind (py_pure (py_len found)) (\<lambda>results_count.
           py_bind (read_world (now_isoformat sg)) (\<lambda>timestamp.
           let retrieval_log =
                 [(''query'', query), (''strategy'', strategy),
                  (''results_count'', PInt (int results_count)),
                  (''timestamp'', PStr timestamp)]
           in py_bind (in_world (ingest_event sg RETRIEVAL_LOGS retrieval_log 1)) (\<lambda>_.
              py_bind (incr_stat ''retrieval_calls'') (\<lambda>_.
              py_return results)))))))
       (\<lambda>e. py_bind (log_msg ''ERROR'' (''Retrieval integration failed: '' @ exn_text e)) (\<lambda>_.
             py_return (PDict [(''error'', PStr (exn_text e)), (''results'', PList [])])))"

definition handle_planning :: "'w semantic_graph \<Rightarrow> pydict \<Rightarrow> ('w system, pyval) comp" where
  "handle_planning sg planning_data =
     py_try
       (let research_question = dict_get planning_data ''research_question'' (PStr []);
            context = dict_get planning_data ''context'' (PDict []);
            strategy = dict_get planning_data ''strategy'' (PStr ''hybrid'');
            max_steps = dict_get planning_data ''max_steps'' (PInt 8)
        in py_bind (in_world (enhanced_planning sg research_question context strategy max_steps)) (\<lambda>plan.
           py_bind (py_pure (py_get plan ''plan_steps'' (PList []))) (\<lambda>steps.
           py_bind (py_pure (py_len steps)) (\<lambda>plan_steps.
           py_bind (py_pure (py_get plan ''graph_connectivity'' (PDict []))) (\<lambda>graph_connectivity.
           py_bind (read_world (now_isoformat sg)) (\<lambda>timestamp.
           let planning_log =
                 [(''research_question'', research_question), (''strategy'', strategy),
                  (''plan_steps'', PInt (int plan_steps)),
                  (''graph_connectivity'', graph_connectivity),
                  (''timestamp'', PStr timestamp)]
           in py_bind (in_world (ingest_event sg PLANNER_OUTPUTS planning_log 2)) (\<lambda>_.
              py_bind (incr_stat ''plan_generations'') (\<lambda>_.
              py_return plan))))))))
       (\<lambda>e. py_bind (log_msg ''ERROR'' (''Planning integration failed: '' @ exn_text e)) (\<lambda>_.
             py_return (PDict [(''error'', PStr (exn_text e)), (''plan_steps'', PList [])])))"

definition handle_preference :: "'w semantic_graph \<Rightarrow> pydict \<Rightarrow> ('w system, pyval) comp" where
  "handle_preference sg preference_data =
     py_try
       (let user_id = dict_get preference_data ''user_id'' (PStr ''anonymous'');
            preferred_content = dict_get preference_data ''preferred_content'' (PStr []);
            rejected_content = dict_get preference_data ''rejected_content'' (PStr []);
            feedback_type = dict_get preference_data ''feedback_type'' (PStr ''quality'');
            confidence = dict_get preference_data ''confidence'' (PFloat 1.0);
            context = dict_get preference_data ''context'' (PStr [])
        in py_bind (in_world (record_user_feedback sg user_id preferred_content rejected_content
                                feedback_type confidence context)) (\<lambda>preference_id.
           py_bind (incr_stat ''preference_logs'') (\<lambda>_.
           py_return (PStr (''User preference recorded: '' @ py_str sg preference_id)))))
       (\<lambda>e. py_bind (log_msg ''ERROR'' (''Preference logging integration failed: '' @ exn_text e)) (\<lambda>_.
             py_return (PStr (''Preference logging error: '' @ exn_text e))))"

text \<open>
  In \<^verbatim>\<open>_handle_monitoring\<close> the dictionary \<^verbatim>\<open>monitoring_log\<close> (with \<^verbatim>\<open>metrics\<close>) is built and never
  used; building it cannot raise, so it is left out.
\<close>

definition handle_monitoring :: "'w semantic_graph \<Rightarrow> pydict \<Rightarrow> ('w system, pyval) comp" where
  "handle_monitoring sg monitoring_data =
     py_try
       (let step_name = dict_get monitoring_data ''step_name'' (PStr ''unknown'');
            execution_time = dict_get monitoring_data ''execution_time'' (PFloat 0.0);
            success = dict_get monitoring_data ''success'' (PBool True)
        in py_bind (py_pure (py_mul_int execution_time 1000)) (\<lambda>millis.
           py_bind (in_world (record_operation_time sg step_name millis)) (\<lambda>_.
           py_bind (if \<not> py_truthy success
                    then in_world (record_error sg (dict_get monitoring_data ''error_type'' (PStr ''general_error'')))
                    else py_return ()) (\<lambda>_.
           py_bind (py_pure (py_format_2f sg execution_time)) (\<lambda>secs.
           py_bind (in_world (record_context_event sg ''monitoring''
                      (''Step: '' @ py_str sg step_name @ '', Time: '' @ secs @ ''s'') 0.3)) (\<lambda>_.
           py_bind (incr_stat ''monitoring_events'') (\<lambda>_.
           py_return (PStr (''Monitoring data recorded for step: '' @ py_str sg step_name)))))))))
       (\<lambda>e. py_bind (log_msg ''ERROR'' (''Monitoring integration failed: '' @ exn_text e)) (\<lambda>_.
             py_return (PStr (''Monitoring integration error: '' @ exn_text e))))"

fun call_hook :: "'w semantic_graph \<Rightarrow> hook \<Rightarrow> pydict \<Rightarrow> ('w system, pyval) comp" where
  "call_hook sg HandleMemoryOutput = handle_memory_output sg"
| "call_hook sg HandleToolUsage = handle_tool_usage sg"
| "call_hook sg HandleFinding = handle_finding sg"
| "call_hook sg HandleRetrieval = handle_retrieval sg"
| "call_hook sg HandlePlanning = handle_planning sg"
| "call_hook sg HandlePreference = handle_preference sg"
| "call_hook sg HandleMonitoring = handle_monitoring sg"

section \<open>Wrapping the host's methods\<close>

text \<open>
  The host objects are referenced, never owned.  Each is a record of the one method the
  integration replaces; a method is a computation on the whole state, so that a method
  that is itself a wrapper fits.  \<^verbatim>\<open>integrate_*\<close> returns the host object with the method
  replaced.  \<^verbatim>\<open>importance\<close> is optional for the caller of \<^verbatim>\<open>save_research_finding\<close>;
  \<^verbatim>\<open>current_episode_id\<close> is an attribute the memory manager may lack.
\<close>

record 'w memory_manager =
  save_research_finding :: "pyval \<Rightarrow> pyval option \<Rightarrow> pydict \<Rightarrow> ('w system, pyval) comp"
  current_episode_id :: "'w \<Rightarrow> pyval option"

record 'w tool_executor =
  invoke :: "pydict \<Rightarrow> ('w system, pyval) comp"

record 'w research_agent =
  execute_research_step :: "pydict \<Rightarrow> ('w system, pydict) comp"

record 'w feedback_collector =
  capture_research_output :: "pyval \<Rightarrow> pyval \<Rightarrow> pyval \<Rightarrow> ('w system, pyval) comp"

record 'w rlhf_system =
  feedback_collector :: "'w feedback_collector option"

definition enhanced_save_finding ::
  "'w semantic_graph \<Rightarrow> 'w memory_manager \<Rightarrow> (pyval \<Rightarrow> pyval option \<Rightarrow> pydict \<Rightarrow> ('w system, pyval) comp)
     \<Rightarrow> pyval \<Rightarrow> pyval option \<Rightarrow> pydict \<Rightarrow> ('w system, pyval) comp" where
  "enhanced_save_finding sg memory_manager original_save_method content importance_arg kwargs =
     (let importance = (case importance_arg of None \<Rightarrow> PFloat 0.5 | Some v \<Rightarrow> v)
      in py_bind (original_save_method content (Some importance) kwargs) (\<lambda>result.
         py_bind (read_world (current_episode_id memory_manager)) (\<lambda>episode.
         let memory_data =
               dict_merge
                 [(''content'', content), (''importance'', importance),
                  (''memory_type'', PStr ''research_finding''),
                  (''session_id'', (case episode of None \<Rightarrow> PStr ''default'' | Some v \<Rightarrow> v))]
                 kwargs
         in py_bind (handle_memory_output sg memory_data) (\<lambda>_.
            py_return result))))"

definition integrate_memory_manager ::
  "'w semantic_graph \<Rightarrow> 'w memory_manager \<Rightarrow> ('w system, 'w memory_manager) comp" where
  "integrate_memory_manager sg memory_manager =
     (let original_save_method = save_research_finding memory_manager
      in py_bind (log_msg ''INFO'' ''Memory manager integrated with semantic graph'') (\<lambda>_.
         py_return (memory_manager\<lparr>save_research_finding :=
                      enhanced_save_finding sg memory_manager original_save_method\<rparr>)))"

definition enhanced_invoke ::
  "'w semantic_graph \<Rightarrow> (pydict \<Rightarrow> ('w system, pyval) comp) \<Rightarrow> pydict \<Rightarrow> ('w system, pyval) comp" where
  "enhanced_invoke sg original_invoke_method tool_input =
     py_bind (read_world (now_seconds sg)) (\<lambda>start_time.
     py_bind (py_try
                (py_bind (original_invoke_method tool_input) (\<lambda>result.
                 py_return (result, True, PNone)))
                (\<lambda>e. py_return (PStr (''Tool execution failed: '' @ exn_text e), False, PStr (exn_text e))))
       (\<lambda>(result, success, error).
     py_bind (read_world (now_seconds sg)) (\<lambda>end_time.
     let execution_time = end_time - start_time;
         tool_data =
           [(''tool_name'', dict_get tool_input ''tool'' (PStr ''unknown'')),
            (''tool_input'', PStr (py_str sg (dict_get tool_input ''tool_input'' (PStr [])))),
            (''tool_output'', PStr (py_str sg result)),
            (''execution_time'', PFloat execution_time),
            (''success'', PBool success),
            (''error'', error)]
     in py_bind (handle_tool_usage sg tool_data) (\<lambda>_.
        if \<not> success then py_raise (Exn ''Exception'' (py_str sg error))
        else py_return result))))"

definition integrate_tool_executor ::
  "'w semantic_graph \<Rightarrow> 'w tool_executor \<Rightarrow> ('w system, 'w tool_executor) comp" where
  "integrate_tool_executor sg tool_executor =
     (let original_invoke_method = invoke tool_executor
      in py_bind (log_msg ''INFO'' ''Tool executor integrated with semantic graph'') (\<lambda>_.
         py_return (tool_executor\<lparr>invoke := enhanced_invoke sg original_invoke_method\<rparr>)))"

definition enhanced_execute_step ::
  "'w semantic_graph \<Rightarrow> (pydict \<Rightarrow> ('w system, pydict) comp) \<Rightarrow> pydict \<Rightarrow> ('w system, pydict) comp" where
  "enhanced_execute_step sg original_execute_step state =
     py_bind (original_execute_step state) (\<lambda>result_state.
     py_bind (case map_of result_state ''findings'' of
                None \<Rightarrow> py_return ()
              | Some findings \<Rightarrow>
                  if py_truthy findings then
                    py_bind (py_pure (py_last findings)) (\<lambda>latest_finding.
                    py_bind (py_pure (py_get latest_finding ''analysis'' (PStr []))) (\<lambda>finding.
                    py_bind (py_pure (py_get latest_finding ''step'' (PInt 0))) (\<lambda>step_number.
                    py_bind (py_pure (py_get latest_finding ''step_description'' (PStr []))) (\<lambda>step_description.
                    py_bind (py_pure (py_get latest_finding ''external_research'' (PList []))) (\<lambda>sources.
                    py_bind (py_pure (py_get latest_finding ''analysis'' (PStr []))) (\<lambda>analysis.
                    let finding_data =
                          [(''finding'', finding),
                           (''step_info'', PDict [(''step_number'', step_number),
                                                  (''step_description'', step_description)]),
                           (''confidence'', PFloat 0.7),
                           (''sources'', sources),
                           (''analysis'', analysis)]
                    in py_bind (handle_finding sg finding_data) (\<lambda>_. py_return ())))))))
                  else py_return ()) (\<lambda>_.
     py_return result_state))"

definition integrate_research_loop ::
  "'w semantic_graph \<Rightarrow> 'w research_agent \<Rightarrow> ('w system, 'w research_agent) comp" where
  "integrate_research_loop sg research_agent =
     (let original_execute_step = execute_research_step research_agent
      in py_bind (log_msg ''INFO'' ''Research loop integrated with semantic graph'') (\<lambda>_.
         py_return (research_agent\<lparr>execute_research_step :=
                      enhanced_execute_step sg original_execute_step\<rparr>)))"

definition enhanced_capture_output ::
  "'w semantic_graph \<Rightarrow> (pyval \<Rightarrow> pyval \<Rightarrow> pyval \<Rightarrow> ('w system, pyval) comp)
     \<Rightarrow> pyval \<Rightarrow> pyval \<Rightarrow> pyval \<Rightarrow> ('w system, pyval) comp" where
  "enhanced_capture_output sg original_capture_method research_result research_question session_id =
     py_bind (original_capture_method research_result research_question session_id) (\<lambda>result.
     py_bind (in_world (record_context_event sg ''rlhf_capture''
                (''Research output captured for feedback: '' @ py_str sg session_id) 0.5)) (\<lambda>_.
     py_return result))"

definition integrate_rlhf_system ::
  "'w semantic_graph \<Rightarrow> 'w rlhf_system \<Rightarrow> ('w system, 'w rlhf_system) comp" where
  "integrate_rlhf_system sg rlhf_system =
     (case feedback_collector rlhf_system of
        None \<Rightarrow> py_return rlhf_system
      | Some collector \<Rightarrow>
          let original_capture_method = capture_research_output collector
          in py_bind (log_msg ''INFO'' ''RLHF system integrated with semantic graph'') (\<lambda>_.
             py_return (rlhf_system\<lparr>feedback_collector :=
               Some (collector\<lparr>capture_research_output :=
                       enhanced_capture_output sg original_capture_method\<rparr>)\<rparr>)))"

section \<open>Statistics and health\<close>

definition read_self :: "('w system \<Rightarrow> 'a) \<Rightarrow> ('w system, 'a) comp" where
  "read_self f = (\<lambda>s. (Inr (f s), s))"

definition stats_total :: "(string \<times> int) list \<Rightarrow> int" where
  \<comment> \<open>\<^verbatim>\<open>sum(self.integration_stats.values())\<close>\<close>
  "stats_total stats = sum_list (map snd stats)"

definition stats_value :: "(string \<times> int) list \<Rightarrow> pyval" where
  "stats_value stats = PDict (map (\<lambda>(k, c). (k, PInt c)) stats)"

definition get_integration_statistics :: "'w semantic_graph \<Rightarrow> ('w system, pydict) comp" where
  "get_integration_statistics sg =
     py_bind (in_world (get_comprehensive_stats sg)) (\<lambda>semantic_stats.
     py_bind (read_self integration_stats) (\<lambda>stats.
     py_bind (read_self integration_hooks) (\<lambda>hooks.
     py_bind (read_world (now_isoformat sg)) (\<lambda>timestamp.
     py_return
       [(''integration_stats'', stats_value stats),
        (''semantic_graph_stats'', semantic_stats),
        (''hooks_registered'', PInt (int (length hooks))),
        (''total_integrations'', PInt (stats_total stats)),
        (''last_updated'', PStr timestamp)]))))"

definition process_pending_events :: "'w semantic_graph \<Rightarrow> ('w system, unit) comp" where
  "process_pending_events sg = in_world (process_pending_ingestion sg)"

definition get_integration_health :: "'w semantic_graph \<Rightarrow> ('w system, pydict) comp" where
  "get_integration_health sg =
     py_bind (read_self integration_hooks) (\<lambda>hooks.
     py_bind (read_self integration_stats) (\<lambda>stats.
     py_bind (in_world (get_monitoring_dashboard_data sg)) (\<lambda>dashboard.
     py_bind (read_world (now_isoformat sg)) (\<lambda>timestamp.
     let health_data =
           [(''integration_points_active'', PInt (int (length hooks))),
            (''total_events_processed'', PInt (stats_total stats)),
            (''semantic_graph_health'', dashboard),
            (''integration_errors'', PInt 0),
            (''last_activity'', PStr timestamp)];
         health_data =
           (if (case dict_get health_data ''total_events_processed'' PNone of
                  PInt processed \<Rightarrow> 0 < processed | _ \<Rightarrow> False)
            then dict_set health_data ''status'' (PStr ''active'')
            else dict_set health_data ''status'' (PStr ''idle''))
     in py_return health_data))))"

section \<open>Sequences of public calls\<close>

text \<open>
  What can happen to an integration instance after its construction: a hook is invoked
  with some payload, one of the three public queries is called, or the world outside
  (host agent, semantic graph, clock) moves on its own.  An exception of a query leaves
  the state as the failed call left it.
\<close>

datatype 'w call =
    CallHook hook pydict
  | GetIntegrationStatistics
  | GetIntegrationHealth
  | ProcessPendingEvents
  | Outside "'w \<Rightarrow> 'w"

fun perform :: "'w semantic_graph \<Rightarrow> 'w call \<Rightarrow> 'w system \<Rightarrow> 'w system" where
  "perform sg (CallHook h payload) s = snd (call_hook sg h payload s)"
| "perform sg GetIntegrationStatistics s = snd (get_integration_statistics sg s)"
| "perform sg GetIntegrationHealth s = snd (get_integration_health sg s)"
| "perform sg ProcessPendingEvents s = snd (process_pending_events sg s)"
| "perform sg (Outside f) s = s\<lparr>world := f (world s)\<rparr>"

fun run :: "'w semantic_graph \<Rightarrow> 'w call list \<Rightarrow> 'w system \<Rightarrow> 'w system" where
  "run sg [] s = s"
| "run sg (c # cs) s = run sg cs (perform sg c s)"

section \<open>Predicates used in the statements\<close>

definition returns :: "('s, 'a) comp \<Rightarrow> bool" where
  "returns m \<longleftrightarrow> (\<forall>s. \<exists>v. fst (m s) = Inr v)"

text \<open>
  \<open>grows s s'\<close>: from \<open>s\<close> to \<open>s'\<close> the hook registry is the same, the statistics
  dictionary has the same keys in the same order, and no counter is smaller.
\<close>

definition grows :: "'w system \<Rightarrow> 'w system \<Rightarrow> bool" where
  "grows s s' \<longleftrightarrow>
     integration_hooks s' = integration_hooks s
   \<and> map fst (integration_stats s') = map fst (integration_stats s)
   \<and> list_all2 (\<le>) (map snd (integration_stats s)) (map snd (integration_stats s'))"

definition keeps :: "('w system, 'a) comp \<Rightarrow> bool" where
  "keeps m \<longleftrightarrow> (\<forall>s. grows s (snd (m s)))"

text \<open>
  \<open>bumped k s s'\<close>: from \<open>s\<close> to \<open>s'\<close> the counter under key \<open>k\<close> went up by exactly one
  and every other entry of the statistics dictionary is what it was.
\<close>

definition bumped :: "string \<Rightarrow> 'w system \<Rightarrow> 'w system \<Rightarrow> bool" where
  "bumped k s s' \<longleftrightarrow>
     (\<exists>c. map_of (integration_stats s) k = Some c \<and> map_of (integration_stats s') k = Some (c + 1))
   \<and> (\<forall>k'. k' \<noteq> k \<longrightarrow> map_of (integration_stats s') k' = map_of (integration_stats s) k')"

text \<open>\<open>accepts sg\<close>: the event ingestion of \<open>sg\<close> never raises.\<close>

definition accepts :: "'w semantic_graph \<Rightarrow> bool" where
  "accepts sg \<longleftrightarrow> (\<forall>src d p w. \<exists>w'. ingest_event sg src d p w = (Inr (), w'))"

definition state_after :: "'w semantic_graph \<Rightarrow> 'w \<Rightarrow> 'w call list \<Rightarrow> 'w system" where
  \<comment> \<open>the instance constructed on world \<open>w\<close>, after the calls \<open>cs\<close>\<close>
  "state_after sg w cs = run sg cs (init_integration w)"

text \<open>
  \<open>raises_at g w\<close>: the collaborator call \<open>g\<close> raises in world \<open>w\<close>.
  \<open>fails_clean m s\<close>: run on \<open>s\<close>, \<open>m\<close> raises and leaves statistics, registry and log as
  they were.  \<open>quiet m\<close>: \<open>m\<close> never touches the three.
  \<open>contained shape logprefix m s\<close>: run on \<open>s\<close>, \<open>m\<close> returns (does not raise) the
  error-shaped value built from the text of some exception, leaves the statistics as
  they were, and the one thing it adds to the log is the error message for that exception.
\<close>

definition raises_at :: "('w \<Rightarrow> (exn + 'a) \<times> 'w) \<Rightarrow> 'w \<Rightarrow> bool" where
  "raises_at g w \<longleftrightarrow> (\<exists>e w'. g w = (Inl e, w'))"

definition fails_clean :: "('w system, 'a) comp \<Rightarrow> 'w system \<Rightarrow> bool" where
  "fails_clean m s \<longleftrightarrow>
     (\<exists>e s'. m s = (Inl e, s') \<and> integration_stats s' = integration_stats s
        \<and> integration_hooks s' = integration_hooks s \<and> logged s' = logged s)"

definition fails_always :: "('w system, 'a) comp \<Rightarrow> bool" where
  "fails_always m \<longleftrightarrow> (\<forall>s. fails_clean m s)"

definition quiet :: "('w system, 'a) comp \<Rightarrow> bool" where
  "quiet m \<longleftrightarrow>
     (\<forall>s. integration_stats (snd (m s)) = integration_stats s
        \<and> integration_hooks (snd (m s)) = integration_hooks s
        \<and> logged (snd (m s)) = logged s)"

definition contained :: "(string \<Rightarrow> pyval) \<Rightarrow> string \<Rightarrow> ('w system, pyval) comp \<Rightarrow> 'w system \<Rightarrow> bool" where
  "contained shape logprefix m s \<longleftrightarrow>
     (\<exists>e s'. m s = (Inr (shape (exn_text e)), s')
        \<and> integration_stats s' = integration_stats s
        \<and> integration_hooks s' = integration_hooks s
        \<and> logged s' = logged s @ [(''ERROR'', logprefix @ exn_text e)])"

section \<open>Concrete collaborators\<close>

text \<open>
  Four semantic graph agents over a world that is the trace of the calls made into the
  graph: one that accepts every call, one whose forwarding calls all raise (only its
  statistics, dashboard and flush answer), one that answers but cannot ingest events, and
  one whose every call succeeds but whose retrieval answers \<^verbatim>\<open>{'results': None}\<close> and whose
  planning answers a list.
\<close>

definition accepting_graph :: "string list semantic_graph" where
  "accepting_graph =
     \<lparr> ingest_event = (\<lambda>src d p w. (Inr (), w @ [''ingest_event''])),
       enhanced_retrieval = (\<lambda>q emb st k nt w.
          (Inr (PDict [(''results'', PList [PStr ''node-1'', PStr ''node-2''])]), w @ [''enhanced_retrieval''])),
       enhanced_planning = (\<lambda>q c st m w.
          (Inr (PDict [(''plan_steps'', PList [PStr ''step-1''])]), w @ [''enhanced_planning''])),
       record_user_feedback = (\<lambda>u p r t c x w. (Inr (PStr ''pref-1''), w @ [''record_user_feedback''])),
       record_operation_time = (\<lambda>n t w. (Inr (), w @ [''record_operation_time''])),
       record_error = (\<lambda>k w. (Inr (), w @ [''record_error''])),
       record_context_event = (\<lambda>t c r w. (Inr (), w @ [''record_context_event''])),
       get_comprehensive_stats = (\<lambda>w. (Inr (PDict []), w)),
       get_monitoring_dashboard_data = (\<lambda>w. (Inr (PDict []), w)),
       process_pending_ingestion = (\<lambda>w. (Inr (), w)),
       now_seconds = (\<lambda>w. real (length w)),
       now_isoformat = (\<lambda>w. ''2024-01-01T00:00:00''),
       str_other = (\<lambda>v. ''<value>''),
       format_2f = (\<lambda>x. ''0.00'') \<rparr>"

definition graph_down :: exn where
  "graph_down = Exn ''ConnectionError'' ''graph backend unavailable''"

definition raising_graph :: "string list semantic_graph" where
  "raising_graph =
     accepting_graph
       \<lparr> ingest_event := (\<lambda>src d p w. (Inl graph_down, w)),
         enhanced_retrieval := (\<lambda>q emb st k nt w. (Inl graph_down, w)),
         enhanced_planning := (\<lambda>q c st m w. (Inl graph_down, w)),
         record_user_feedback := (\<lambda>u p r t c x w. (Inl graph_down, w)),
         record_operation_time := (\<lambda>n t w. (Inl graph_down, w)),
         record_error := (\<lambda>k w. (Inl graph_down, w)),
         record_context_event := (\<lambda>t c r w. (Inl graph_down, w)) \<rparr>"

definition read_only_graph :: "string list semantic_graph" where
  "read_only_graph = accepting_graph \<lparr> ingest_event := (\<lambda>src d p w. (Inl graph_down, w)) \<rparr>"

definition unsized_graph :: "string list semantic_graph" where
  "unsized_graph =
     accepting_graph
       \<lparr> enhanced_retrieval := (\<lambda>q emb st k nt w.
            (Inr (PDict [(''results'', PNone)]), w @ [''enhanced_retrieval''])),
         enhanced_planning := (\<lambda>q c st m w. (Inr (PList []), w @ [''enhanced_planning''])) \<rparr>"

text \<open>Host objects: a tool that answers, a tool that rejects its input, and the rest.\<close>

definition answering_tool :: "string list tool_executor" where
  "answering_tool = \<lparr> invoke = (\<lambda>tool_input. py_return (PStr ''42'')) \<rparr>"

definition rejecting_tool :: "string list tool_executor" where
  "rejecting_tool = \<lparr> invoke = (\<lambda>tool_input. py_raise (Exn ''ValueError'' ''bad input'')) \<rparr>"

definition plain_memory_manager :: "string list memory_manager" where
  "plain_memory_manager =
     \<lparr> save_research_finding = (\<lambda>content importance kwargs. py_return (PStr ''saved'')),
       current_episode_id = (\<lambda>w. None) \<rparr>"

definition one_finding_agent :: "string list research_agent" where
  "one_finding_agent =
     \<lparr> execute_research_step = (\<lambda>state.
         py_return [(''findings'', PList [PDict [(''analysis'', PStr ''graphs help''), (''step'', PInt 1)]])]) \<rparr>"

definition plain_collector :: "string list feedback_collector" where
  "plain_collector =
     \<lparr> capture_research_output = (\<lambda>research_result research_question session_id.
         py_return (PStr ''captured'')) \<rparr>"

text \<open>The answering tool after one and after two applications of \<^verbatim>\<open>integrate_tool_executor\<close>.\<close>

definition wrapped_once :: "string list tool_executor" where
  "wrapped_once = answering_tool\<lparr>invoke := enhanced_invoke accepting_graph (invoke answering_tool)\<rparr>"

definition wrapped_twice :: "string list tool_executor" where
  "wrapped_twice = wrapped_once\<lparr>invoke := enhanced_invoke accepting_graph (invoke wrapped_once)\<rparr>"

section \<open>Rules for running computations\<close>

lemma py_bind_return [simp]: "py_bind (py_return v) f s = f v s"
  by (simp add: py_bind_def py_return_def)

lemma py_bind_raise [simp]: "py_bind (py_raise e) f s = (Inl e, s)"
  by (simp add: py_bind_def py_raise_def)

lemma py_bind_pure_Inr [simp]: "py_bind (py_pure (Inr v)) f s = f v s"
  by (simp add: py_bind_def py_pure_def)

lemma py_bind_pure_Inl [simp]: "py_bind (py_pure (Inl e)) f s = (Inl e, s)"
  by (simp add: py_bind_def py_pure_def)

lemma py_bind_read_world [simp]: "py_bind (read_world g) f s = f (g (world s)) s"
  by (simp add: py_bind_def read_world_def)

lemma py_bind_read_self [simp]: "py_bind (read_self g) f s = f (g s) s"
  by (simp add: py_bind_def read_self_def)

lemma py_bind_log_msg [simp]:
  "py_bind (log_msg level msg) f s = f () (s\<lparr>logged := logged s @ [(level, msg)]\<rparr>)"
  by (simp add: py_bind_def log_msg_def)

lemma py_return_apply [simp]: "py_return v s = (Inr v, s)"
  by (simp add: py_return_def)

lemma py_raise_apply [simp]: "py_raise e s = (Inl e, s)"
  by (simp add: py_raise_def)

lemma py_try_Inl: "m s = (Inl e, s') \<Longrightarrow> py_try m h s = h e s'"
  by (simp add: py_try_def)

lemma py_try_Inr: "m s = (Inr v, s') \<Longrightarrow> py_try m h s = (Inr v, s')"
  by (simp add: py_try_def)

subsection \<open>Computations that always return\<close>

lemma returns_try:
  assumes "\<And>e. returns (h e)"
  shows "returns (py_try m h)"
  unfolding returns_def
proof
  fix s
  show "\<exists>v. fst (py_try m h s) = Inr v"
  proof (cases "m s")
    case (Pair r s')
    show ?thesis
    proof (cases r)
      case (Inl e)
      with Pair have "py_try m h s = h e s'" by (simp add: py_try_Inl)
      with assms [of e] show ?thesis by (simp add: returns_def)
    next
      case (Inr v)
      with Pair show ?thesis by (simp add: py_try_Inr)
    qed
  qed
qed

lemma returns_log_then_return: "returns (py_bind (log_msg level msg) (\<lambda>_. py_return v))"
  by (simp add: returns_def)

lemma returns_handle_memory_output: "returns (handle_memory_output sg payload)"
  unfolding handle_memory_output_def by (rule returns_try) (rule returns_log_then_return)

lemma returns_handle_tool_usage: "returns (handle_tool_usage sg payload)"
  unfolding handle_tool_usage_def by (rule returns_try) (rule returns_log_then_return)

lemma returns_handle_finding: "returns (handle_finding sg payload)"
  unfolding handle_finding_def by (rule returns_try) (rule returns_log_then_return)

lemma returns_handle_retrieval: "returns (handle_retrieval sg payload)"
  unfolding handle_retrieval_def by (rule returns_try) (rule returns_log_then_return)

lemma returns_handle_planning: "returns (handle_planning sg payload)"
  unfolding handle_planning_def by (rule returns_try) (rule returns_log_then_return)

lemma returns_handle_preference: "returns (handle_preference sg payload)"
  unfolding handle_preference_def by (rule returns_try) (rule returns_log_then_return)

lemma returns_handle_monitoring: "returns (handle_monitoring sg payload)"
  unfolding handle_monitoring_def by (rule returns_try) (rule returns_log_then_return)

lemma returns_call_hook: "returns (call_hook sg h payload)"
  by (cases h)
     (simp_all add: returns_handle_memory_output returns_handle_tool_usage returns_handle_finding
        returns_handle_retrieval returns_handle_planning returns_handle_preference
        returns_handle_monitoring)

subsection \<open>What every computation of the layer keeps\<close>

lemma grows_refl [simp]: "grows s s"
  by (simp add: grows_def list_all2_same)

lemma grows_trans: "grows s s' \<Longrightarrow> grows s' s'' \<Longrightarrow> grows s s''"
  unfolding grows_def
  by (auto elim: list_all2_trans [rotated])

lemma grows_world [simp]: "grows s (s\<lparr>world := w\<rparr>)"
  by (simp add: grows_def list_all2_same)

lemma grows_logged [simp]: "grows s (s\<lparr>logged := l\<rparr>)"
  by (simp add: grows_def list_all2_same)

lemma update_keeps_keys:
  "map_of al k = Some c \<Longrightarrow> map fst (AList.update k v al) = map fst al"
  by (induction al) (auto split: if_splits)

lemma update_grows_values:
  "map_of al k = Some (c::int) \<Longrightarrow> c \<le> v \<Longrightarrow>
   list_all2 (\<le>) (map snd al) (map snd (AList.update k v al))"
  by (induction al) (auto simp: list_all2_same split: if_splits)

lemma keeps_return [simp]: "keeps (py_return v)"
  by (simp add: keeps_def)

lemma keeps_raise [simp]: "keeps (py_raise e)"
  by (simp add: keeps_def)

lemma keeps_pure [simp]: "keeps (py_pure r)"
  by (simp add: keeps_def py_pure_def)

lemma keeps_read_world [simp]: "keeps (read_world g)"
  by (simp add: keeps_def read_world_def)

lemma keeps_read_self [simp]: "keeps (read_self g)"
  by (simp add: keeps_def read_self_def)

lemma keeps_log_msg [simp]: "keeps (log_msg level msg)"
  by (simp add: keeps_def log_msg_def)

lemma keeps_in_world [simp]: "keeps (in_world g)"
  by (simp add: keeps_def in_world_def split: prod.splits)

lemma keeps_incr_stat [simp]: "keeps (incr_stat k)"
  by (auto simp: keeps_def incr_stat_def grows_def dict_set_def update_keeps_keys
        update_grows_values list_all2_same split: option.splits)

lemma keeps_bind:
  assumes "keeps m" and "\<And>v. keeps (f v)"
  shows "keeps (py_bind m f)"
  unfolding keeps_def
proof
  fix s
  obtain r s' where ms: "m s = (r, s')" by (cases "m s")
  from assms(1) ms have g1: "grows s s'" by (auto simp: keeps_def dest: spec [of _ s])
  show "grows s (snd (py_bind m f s))"
  proof (cases r)
    case (Inl e)
    with ms g1 show ?thesis by (simp add: py_bind_def)
  next
    case (Inr v)
    from assms(2) [of v] have "grows s' (snd (f v s'))" by (simp add: keeps_def)
    with g1 have "grows s (snd (f v s'))" by (rule grows_trans)
    with ms Inr show ?thesis by (simp add: py_bind_def)
  qed
qed

lemma keeps_try:
  assumes "keeps m" and "\<And>e. keeps (h e)"
  shows "keeps (py_try m h)"
  unfolding keeps_def
proof
  fix s
  obtain r s' where ms: "m s = (r, s')" by (cases "m s")
  from assms(1) ms have g1: "grows s s'" by (auto simp: keeps_def dest: spec [of _ s])
  show "grows s (snd (py_try m h s))"
  proof (cases r)
    case (Inl e)
    from assms(2) [of e] have "grows s' (snd (h e s'))" by (simp add: keeps_def)
    with g1 have "grows s (snd (h e s'))" by (rule grows_trans)
    with ms Inl show ?thesis by (simp add: py_try_def)
  next
    case (Inr v)
    with ms g1 show ?thesis by (simp add: py_try_def)
  qed
qed

lemma keeps_if: "keeps a \<Longrightarrow> keeps b \<Longrightarrow> keeps (if c then a else b)"
  by simp

lemmas keeps_rules =
  keeps_try keeps_bind keeps_if keeps_return keeps_raise keeps_pure keeps_read_world
  keeps_read_self keeps_log_msg keeps_in_world keeps_incr_stat

lemma keeps_handle_memory_output: "keeps (handle_memory_output sg payload)"
  unfolding handle_memory_output_def Let_def by (intro keeps_rules)

lemma keeps_handle_tool_usage: "keeps (handle_tool_usage sg payload)"
  unfolding handle_tool_usage_def Let_def by (intro keeps_rules)

lemma keeps_handle_finding: "keeps (handle_finding sg payload)"
  unfolding handle_finding_def Let_def by (intro keeps_rules)

lemma keeps_handle_retrieval: "keeps (handle_retrieval sg payload)"
  unfolding handle_retrieval_def Let_def by (intro keeps_rules)

lemma keeps_handle_planning: "keeps (handle_planning sg payload)"
  unfolding handle_planning_def Let_def by (intro keeps_rules)

lemma keeps_handle_preference: "keeps (handle_preference sg payload)"
  unfolding handle_preference_def Let_def by (intro keeps_rules)

lemma keeps_handle_monitoring: "keeps (handle_monitoring sg payload)"
  unfolding handle_monitoring_def Let_def by (intro keeps_rules)

lemma keeps_call_hook: "keeps (call_hook sg h payload)"
  by (cases h)
     (simp_all add: keeps_handle_memory_output keeps_handle_tool_usage keeps_handle_finding
        keeps_handle_retrieval keeps_handle_planning keeps_handle_preference
        keeps_handle_monitoring)

lemma keeps_get_integration_statistics: "keeps (get_integration_statistics sg)"
  unfolding get_integration_statistics_def by (intro keeps_rules)

lemma keeps_get_integration_health: "keeps (get_integration_health sg)"
  unfolding get_integration_health_def Let_def by (intro keeps_rules)

lemma keeps_process_pending_events: "keeps (process_pending_events sg)"
  unfolding process_pending_events_def by simp

lemma grows_perform: "grows s (perform sg c s)"
proof (cases c)
  case (CallHook h payload)
  with keeps_call_hook [of sg h payload] show ?thesis by (simp add: keeps_def)
next
  case GetIntegrationStatistics
  with keeps_get_integration_statistics [of sg] show ?thesis by (simp add: keeps_def)
next
  case GetIntegrationHealth
  with keeps_get_integration_health [of sg] show ?thesis by (simp add: keeps_def)
next
  case ProcessPendingEvents
  with keeps_process_pending_events [of sg] show ?thesis by (simp add: keeps_def)
next
  case (Outside f)
  then show ?thesis by simp
qed

lemma grows_run: "grows s (run sg cs s)"
proof (induction cs arbitrary: s)
  case Nil
  show ?case by simp
next
  case (Cons c cs)
  have "grows s (perform sg c s)" by (rule grows_perform)
  moreover have "grows (perform sg c s) (run sg cs (perform sg c s))" by (rule Cons.IH)
  ultimately show ?case by (simp add: grows_trans)
qed

subsection \<open>Evaluating the model on concrete collaborators\<close>

lemmas eval_defs =
  handle_memory_output_def handle_tool_usage_def handle_finding_def handle_retrieval_def
  handle_planning_def handle_preference_def handle_monitoring_def
  py_try_def py_bind_def py_pure_def in_world_def incr_stat_def read_world_def read_self_def
  log_msg_def dict_get_def dict_set_def init_integration_def register_integration_hooks_def
  py_str_def py_format_2f_def show_nat.simps digit_char_def Let_def graph_down_def
  state_after_def

section \<open>Statistics, registry and health over every sequence of calls\<close>

lemma register_integration_hooks_empty:
  "register_integration_hooks [] =
     [(''memory_writes'', HandleMemoryOutput), (''tool_usage_logs'', HandleToolUsage),
      (''findings_capture'', HandleFinding), (''retrieval_calls'', HandleRetrieval),
      (''plan_generation'', HandlePlanning), (''preference_logging'', HandlePreference),
      (''monitoring'', HandleMonitoring)]"
  by (simp add: register_integration_hooks_def dict_set_def)

lemma hooks_after_run:
  "integration_hooks (run sg cs (init_integration w)) = register_integration_hooks []"
proof -
  have "grows (init_integration w) (run sg cs (init_integration w))" by (rule grows_run)
  then show ?thesis by (simp add: grows_def init_integration_def)
qed

lemma keys_seven:
  assumes "map fst xs = [k1, k2, k3, k4, k5, k6, k7]"
  shows "\<exists>c1 c2 c3 c4 c5 c6 c7.
           xs = [(k1, c1), (k2, c2), (k3, c3), (k4, c4), (k5, c5), (k6, c6), (k7, c7)]"
  using assms by (auto simp: map_eq_Cons_conv)

lemma stats_after_run:
  "\<exists>m t f r p u v.
     integration_stats (run sg cs (init_integration w)) =
       [(''memory_writes'', m), (''tool_usage_logs'', t), (''findings_captured'', f),
        (''retrieval_calls'', r), (''plan_generations'', p), (''preference_logs'', u),
        (''monitoring_events'', v)]
     \<and> 0 \<le> m \<and> 0 \<le> t \<and> 0 \<le> f \<and> 0 \<le> r \<and> 0 \<le> p \<and> 0 \<le> u \<and> 0 \<le> v"
proof -
  let ?s = "run sg cs (init_integration w)"
  have g: "grows (init_integration w) ?s" by (rule grows_run)
  then have keys: "map fst (integration_stats ?s) =
      [''memory_writes'', ''tool_usage_logs'', ''findings_captured'', ''retrieval_calls'',
       ''plan_generations'', ''preference_logs'', ''monitoring_events'']"
    by (simp add: grows_def init_integration_def)
  from keys_seven [OF keys] obtain m t f r p u v where
    eq: "integration_stats ?s =
       [(''memory_writes'', m), (''tool_usage_logs'', t), (''findings_captured'', f),
        (''retrieval_calls'', r), (''plan_generations'', p), (''preference_logs'', u),
        (''monitoring_events'', v)]"
    by blast
  from g have "list_all2 (\<le>) [0, 0, 0, 0, 0, 0, 0] (map snd (integration_stats ?s))"
    by (simp add: grows_def init_integration_def)
  with eq have "0 \<le> m \<and> 0 \<le> t \<and> 0 \<le> f \<and> 0 \<le> r \<and> 0 \<le> p \<and> 0 \<le> u \<and> 0 \<le> v"
    by simp
  with eq show ?thesis by blast
qed

lemma get_integration_statistics_result:
  "get_integration_statistics sg s =
     (case get_comprehensive_stats sg (world s) of
        (Inl e, w') \<Rightarrow> (Inl e, s\<lparr>world := w'\<rparr>)
      | (Inr semantic_stats, w') \<Rightarrow>
          (Inr [(''integration_stats'', stats_value (integration_stats s)),
                (''semantic_graph_stats'', semantic_stats),
                (''hooks_registered'', PInt (int (length (integration_hooks s)))),
                (''total_integrations'', PInt (stats_total (integration_stats s))),
                (''last_updated'', PStr (now_isoformat sg w'))],
           s\<lparr>world := w'\<rparr>))"
  by (simp add: get_integration_statistics_def py_bind_def in_world_def read_self_def
        read_world_def split: prod.splits sum.splits)

lemma get_integration_health_result:
  "get_integration_health sg s =
     (case get_monitoring_dashboard_data sg (world s) of
        (Inl e, w') \<Rightarrow> (Inl e, s\<lparr>world := w'\<rparr>)
      | (Inr dashboard, w') \<Rightarrow>
          (Inr [(''integration_points_active'', PInt (int (length (integration_hooks s)))),
                (''total_events_processed'', PInt (stats_total (integration_stats s))),
                (''semantic_graph_health'', dashboard),
                (''integration_errors'', PInt 0),
                (''last_activity'', PStr (now_isoformat sg w')),
                (''status'', PStr (if 0 < stats_total (integration_stats s) then ''active'' else ''idle''))],
           s\<lparr>world := w'\<rparr>))"
  by (simp add: get_integration_health_def py_bind_def in_world_def read_self_def
        read_world_def dict_get_def dict_set_def Let_def split: prod.splits sum.splits)

lemma stats_total_mono:
  "list_all2 (\<le>) (map snd xs) (map snd ys) \<Longrightarrow> stats_total xs \<le> stats_total ys"
  unfolding stats_total_def
proof (induction xs arbitrary: ys)
  case Nil
  then show ?case by simp
next
  case (Cons x xs)
  then obtain y ys' where ys: "ys = y # ys'" by (cases ys) auto
  with Cons.prems have "snd x \<le> snd y" and "list_all2 (\<le>) (map snd xs) (map snd ys')"
    by simp_all
  with Cons.IH [of ys'] ys show ?case by simp
qed

lemma stats_total_run_mono:
  "stats_total (integration_stats s) \<le> stats_total (integration_stats (run sg cs s))"
proof -
  have "grows s (run sg cs s)" by (rule grows_run)
  then show ?thesis by (simp add: grows_def stats_total_mono)
qed

lemma counter_run_mono:
  assumes "map_of (integration_stats s) k = Some c"
  shows "\<exists>c'. map_of (integration_stats (run sg cs s)) k = Some c' \<and> c \<le> c'"
proof -
  have g: "grows s (run sg cs s)" by (rule grows_run)
  have gen: "\<And>ys. map fst ys = map fst xs \<Longrightarrow> list_all2 (\<le>) (map snd xs) (map snd ys) \<Longrightarrow>
      map_of xs k = Some c \<Longrightarrow> \<exists>c'. map_of ys k = Some c' \<and> c \<le> c'" for xs :: "(string \<times> int) list"
  proof (induction xs)
    case Nil
    then show ?case by simp
  next
    case (Cons x xs)
    from Cons.prems(1) obtain y ys' where ys: "ys = y # ys'" by (cases ys) auto
    with Cons.prems have fy: "fst y = fst x" and le: "snd x \<le> snd y"
      and rest: "map fst ys' = map fst xs" "list_all2 (\<le>) (map snd xs) (map snd ys')"
      by simp_all
    show ?case
    proof (cases "fst x = k")
      case True
      with Cons.prems(3) have "snd x = c" by (cases x) simp
      with True fy le ys show ?thesis by (cases y) auto
    next
      case False
      with Cons.prems(3) have "map_of xs k = Some c" by (cases x) (simp split: if_splits)
      from Cons.IH [OF rest this] obtain c' where "map_of ys' k = Some c'" "c \<le> c'" by blast
      with False fy ys show ?thesis by (cases y) auto
    qed
  qed
  from g assms show ?thesis
    by (intro gen [of "integration_stats (run sg cs s)" "integration_stats s"]) (simp_all add: grows_def)
qed

text \<open>
  C5.  After every finite sequence of calls on a freshly constructed instance (hooks with
  any payloads, succeeding or failing, queries, and changes of the outside world), the
  statistics dictionary holds the seven counters, each a non-negative integer; the
  \<^verbatim>\<open>total_integrations\<close> entry that \<^verbatim>\<open>get_integration_statistics\<close> returns is the sum of the
  seven; the query returns whenever the graph's own statistics call does; and no counter
  is smaller after any further calls.
\<close>

theorem total_integrations_is_sum_of_counters:
  "\<exists>m t f r p u v.
     integration_stats (state_after sg w cs) =
       [(''memory_writes'', m), (''tool_usage_logs'', t), (''findings_captured'', f),
        (''retrieval_calls'', r), (''plan_generations'', p), (''preference_logs'', u),
        (''monitoring_events'', v)]
   \<and> 0 \<le> m \<and> 0 \<le> t \<and> 0 \<le> f \<and> 0 \<le> r \<and> 0 \<le> p \<and> 0 \<le> u \<and> 0 \<le> v
   \<and> (\<forall>d s'. get_integration_statistics sg (state_after sg w cs) = (Inr d, s') \<longrightarrow>
          map_of d ''total_integrations'' = Some (PInt (m + t + f + r + p + u + v)))
   \<and> ((\<exists>x. fst (get_comprehensive_stats sg (world (state_after sg w cs))) = Inr x) \<longrightarrow>
          (\<exists>d. fst (get_integration_statistics sg (state_after sg w cs)) = Inr d))
   \<and> (\<forall>more k c. map_of (integration_stats (state_after sg w cs)) k = Some c \<longrightarrow>
          (\<exists>c'. map_of (integration_stats (run sg more (state_after sg w cs))) k = Some c' \<and> c \<le> c'))"
proof -
  let ?s = "state_after sg w cs"
  from stats_after_run [of sg cs w] obtain m t f r p u v where
    eq: "integration_stats ?s =
       [(''memory_writes'', m), (''tool_usage_logs'', t), (''findings_captured'', f),
        (''retrieval_calls'', r), (''plan_generations'', p), (''preference_logs'', u),
        (''monitoring_events'', v)]"
    and nonneg: "0 \<le> m \<and> 0 \<le> t \<and> 0 \<le> f \<and> 0 \<le> r \<and> 0 \<le> p \<and> 0 \<le> u \<and> 0 \<le> v"
    unfolding state_after_def by blast
  have total: "stats_total (integration_stats ?s) = m + t + f + r + p + u + v"
    by (simp add: eq stats_total_def)
  have a: "\<forall>d s'. get_integration_statistics sg ?s = (Inr d, s') \<longrightarrow>
          map_of d ''total_integrations'' = Some (PInt (m + t + f + r + p + u + v))"
    by (auto simp: get_integration_statistics_result total split: prod.splits sum.splits)
  have b: "(\<exists>x. fst (get_comprehensive_stats sg (world ?s)) = Inr x) \<longrightarrow>
          (\<exists>d. fst (get_integration_statistics sg ?s) = Inr d)"
    by (auto simp: get_integration_statistics_result split: prod.splits sum.splits)
  have c: "\<forall>more k c. map_of (integration_stats ?s) k = Some c \<longrightarrow>
          (\<exists>c'. map_of (integration_stats (run sg more ?s)) k = Some c' \<and> c \<le> c')"
    using counter_run_mono by blast
  from eq nonneg a b c show ?thesis by blast
qed

theorem total_integrations_is_sum_of_counters_witness:
  "integration_stats
     (state_after accepting_graph []
        [CallHook HandleMemoryOutput [], CallHook HandleToolUsage [],
         CallHook HandleMemoryOutput [(''content'', PStr ''abc'')]]) =
     [(''memory_writes'', 2), (''tool_usage_logs'', 1), (''findings_captured'', 0),
      (''retrieval_calls'', 0), (''plan_generations'', 0), (''preference_logs'', 0),
      (''monitoring_events'', 0)]
   \<and> (\<exists>d. fst (get_integration_statistics accepting_graph
          (state_after accepting_graph []
             [CallHook HandleMemoryOutput [], CallHook HandleToolUsage [],
              CallHook HandleMemoryOutput [(''content'', PStr ''abc'')]])) = Inr d
        \<and> map_of d ''total_integrations'' = Some (PInt 3))"
proof -
  let ?cs = "[CallHook HandleMemoryOutput [], CallHook HandleToolUsage [],
              CallHook HandleMemoryOutput [(''content'', PStr ''abc'')]]"
  let ?s = "state_after accepting_graph [] ?cs"
  have ev: "integration_stats ?s =
     [(''memory_writes'', 2), (''tool_usage_logs'', 1), (''findings_captured'', 0),
      (''retrieval_calls'', 0), (''plan_generations'', 0), (''preference_logs'', 0),
      (''monitoring_events'', 0)]"
    by (simp add: eval_defs accepting_graph_def)
  have ok: "\<exists>x. fst (get_comprehensive_stats accepting_graph (world ?s)) = Inr x"
    by (simp add: accepting_graph_def)
  from total_integrations_is_sum_of_counters [of accepting_graph "[]" ?cs] ev ok
  obtain d where d: "fst (get_integration_statistics accepting_graph ?s) = Inr d"
    and tot: "\<forall>d s'. get_integration_statistics accepting_graph ?s = (Inr d, s') \<longrightarrow>
          map_of d ''total_integrations'' = Some (PInt 3)"
    by auto
  from d tot have "map_of d ''total_integrations'' = Some (PInt 3)"
    by (metis prod.collapse)
  with ev d show ?thesis by blast
qed

text \<open>
  C6.  After every finite sequence of calls on a freshly constructed instance, with
  \<open>m\<close>, \<open>t\<close>, \<open>f\<close>, \<open>r\<close>, \<open>p\<close>, \<open>u\<close>, \<open>v\<close> the seven counters of the statistics dictionary:
  \<^verbatim>\<open>get_integration_health\<close> (which returns whenever the graph's dashboard call does) reports
  \<^verbatim>\<open>total_events_processed\<close> = \<open>m + t + f + r + p + u + v\<close>, the status \<^verbatim>\<open>active\<close> exactly when
  that sum is positive and \<^verbatim>\<open>idle\<close> exactly when it is not; before any call the snapshot
  says 0 and \<^verbatim>\<open>idle\<close>; and once a snapshot says \<^verbatim>\<open>active\<close>, every snapshot taken after any
  further calls, failing or not, says \<^verbatim>\<open>active\<close>.
\<close>

theorem health_status_active_iff_processed:
  "\<exists>m t f r p u v.
     integration_stats (state_after sg w cs) =
       [(''memory_writes'', m), (''tool_usage_logs'', t), (''findings_captured'', f),
        (''retrieval_calls'', r), (''plan_generations'', p), (''preference_logs'', u),
        (''monitoring_events'', v)]
   \<and> (\<forall>d s'. get_integration_health sg (state_after sg w cs) = (Inr d, s') \<longrightarrow>
          map_of d ''total_events_processed'' = Some (PInt (m + t + f + r + p + u + v))
        \<and> (map_of d ''status'' = Some (PStr ''active'') \<longleftrightarrow> 0 < m + t + f + r + p + u + v)
        \<and> (map_of d ''status'' = Some (PStr ''idle'') \<longleftrightarrow> \<not> 0 < m + t + f + r + p + u + v)
        \<and> (map_of d ''status'' = Some (PStr ''active'') \<longrightarrow>
             (\<forall>more d' s''.
                 get_integration_health sg (run sg more (state_after sg w cs)) = (Inr d', s'') \<longrightarrow>
                 map_of d' ''status'' = Some (PStr ''active''))))
   \<and> ((\<exists>x. fst (get_monitoring_dashboard_data sg (world (state_after sg w cs))) = Inr x) \<longrightarrow>
          (\<exists>d. fst (get_integration_health sg (state_after sg w cs)) = Inr d))
   \<and> (\<forall>d s'. get_integration_health sg (init_integration w) = (Inr d, s') \<longrightarrow>
          map_of d ''total_events_processed'' = Some (PInt 0)
        \<and> map_of d ''status'' = Some (PStr ''idle''))"
proof -
  let ?s = "state_after sg w cs"
  from stats_after_run [of sg cs w] obtain m t f r p u v where
    eq: "integration_stats ?s =
       [(''memory_writes'', m), (''tool_usage_logs'', t), (''findings_captured'', f),
        (''retrieval_calls'', r), (''plan_generations'', p), (''preference_logs'', u),
        (''monitoring_events'', v)]"
    unfolding state_after_def by blast
  have total: "stats_total (integration_stats ?s) = m + t + f + r + p + u + v"
    by (simp add: eq stats_total_def)
  have mono: "stats_total (integration_stats ?s) \<le> stats_total (integration_stats (run sg more ?s))"
    for more by (rule stats_total_run_mono)
  have later: "map_of d' ''status'' = Some (PStr ''active'')"
    if "0 < m + t + f + r + p + u + v"
      and "get_integration_health sg (run sg more ?s) = (Inr d', s'')" for more d' s''
  proof -
    from that(1) total mono [of more] have "0 < stats_total (integration_stats (run sg more ?s))"
      by linarith
    with that(2) show ?thesis
      by (auto simp: get_integration_health_result split: prod.splits sum.splits)
  qed
  have a: "\<forall>d s'. get_integration_health sg ?s = (Inr d, s') \<longrightarrow>
          map_of d ''total_events_processed'' = Some (PInt (m + t + f + r + p + u + v))
        \<and> (map_of d ''status'' = Some (PStr ''active'') \<longleftrightarrow> 0 < m + t + f + r + p + u + v)
        \<and> (map_of d ''status'' = Some (PStr ''idle'') \<longleftrightarrow> \<not> 0 < m + t + f + r + p + u + v)"
    unfolding total [symmetric]
    by (auto simp: get_integration_health_result split: prod.splits sum.splits)
  have b: "(\<exists>x. fst (get_monitoring_dashboard_data sg (world ?s)) = Inr x) \<longrightarrow>
          (\<exists>d. fst (get_integration_health sg ?s) = Inr d)"
    by (auto simp: get_integration_health_result split: prod.splits sum.splits)
  have c: "\<forall>d s'. get_integration_health sg (init_integration w) = (Inr d, s') \<longrightarrow>
          map_of d ''total_events_processed'' = Some (PInt 0)
        \<and> map_of d ''status'' = Some (PStr ''idle'')"
    by (auto simp: get_integration_health_result init_integration_def stats_total_def
          split: prod.splits sum.splits)
  have d: "\<forall>d s'. get_integration_health sg ?s = (Inr d, s') \<longrightarrow>
          map_of d ''total_events_processed'' = Some (PInt (m + t + f + r + p + u + v))
        \<and> (map_of d ''status'' = Some (PStr ''active'') \<longleftrightarrow> 0 < m + t + f + r + p + u + v)
        \<and> (map_of d ''status'' = Some (PStr ''idle'') \<longleftrightarrow> \<not> 0 < m + t + f + r + p + u + v)
        \<and> (map_of d ''status'' = Some (PStr ''active'') \<longrightarrow>
             (\<forall>more d' s''.
                 get_integration_health sg (run sg more ?s) = (Inr d', s'') \<longrightarrow>
                 map_of d' ''status'' = Some (PStr ''active'')))"
  proof (intro allI impI)
    fix d s'
    assume h: "get_integration_health sg ?s = (Inr d, s')"
    from a h have 1: "map_of d ''total_events_processed'' = Some (PInt (m + t + f + r + p + u + v))"
      and 2: "map_of d ''status'' = Some (PStr ''active'') \<longleftrightarrow> 0 < m + t + f + r + p + u + v"
      and 3: "map_of d ''status'' = Some (PStr ''idle'') \<longleftrightarrow> \<not> 0 < m + t + f + r + p + u + v"
      by simp_all
    have 4: "map_of d ''status'' = Some (PStr ''active'') \<longrightarrow>
             (\<forall>more d' s''.
                 get_integration_health sg (run sg more ?s) = (Inr d', s'') \<longrightarrow>
                 map_of d' ''status'' = Some (PStr ''active''))"
    proof (intro impI allI)
      fix more d' s''
      assume "map_of d ''status'' = Some (PStr ''active'')"
        and h': "get_integration_health sg (run sg more ?s) = (Inr d', s'')"
      with 2 have "0 < m + t + f + r + p + u + v" by simp
      then show "map_of d' ''status'' = Some (PStr ''active'')" using h' by (rule later)
    qed
    from 1 2 3 4 show "map_of d ''total_events_processed'' = Some (PInt (m + t + f + r + p + u + v))
        \<and> (map_of d ''status'' = Some (PStr ''active'') \<longleftrightarrow> 0 < m + t + f + r + p + u + v)
        \<and> (map_of d ''status'' = Some (PStr ''idle'') \<longleftrightarrow> \<not> 0 < m + t + f + r + p + u + v)
        \<and> (map_of d ''status'' = Some (PStr ''active'') \<longrightarrow>
             (\<forall>more d' s''.
                 get_integration_health sg (run sg more ?s) = (Inr d', s'') \<longrightarrow>
                 map_of d' ''status'' = Some (PStr ''active'')))"
      by (intro conjI)
  qed
  show ?thesis
    by (intro exI conjI) (rule eq, rule d, rule b, rule c)
qed

theorem health_status_active_iff_processed_witness:
  "(\<exists>d. fst (get_integration_health raising_graph
            (state_after raising_graph [] [CallHook HandleMemoryOutput []])) = Inr d
        \<and> map_of d ''status'' = Some (PStr ''idle'')
        \<and> map_of d ''total_events_processed'' = Some (PInt 0))
   \<and> (\<exists>d. fst (get_integration_health accepting_graph
            (state_after accepting_graph []
               [CallHook HandleMemoryOutput [], CallHook HandleToolUsage [], CallHook HandleMonitoring []])) = Inr d
        \<and> map_of d ''status'' = Some (PStr ''active'')
        \<and> map_of d ''total_events_processed'' = Some (PInt 3))"
proof -
  let ?rc = "[CallHook HandleMemoryOutput []]"
  let ?ac = "[CallHook HandleMemoryOutput [], CallHook HandleToolUsage [], CallHook HandleMonitoring []]"
  let ?r = "state_after raising_graph [] ?rc"
  let ?a = "state_after accepting_graph [] ?ac"
  have r0: "integration_stats ?r =
       [(''memory_writes'', 0), (''tool_usage_logs'', 0), (''findings_captured'', 0),
        (''retrieval_calls'', 0), (''plan_generations'', 0), (''preference_logs'', 0),
        (''monitoring_events'', 0)]"
    by (simp add: eval_defs accepting_graph_def raising_graph_def)
  have a3: "integration_stats ?a =
       [(''memory_writes'', 1), (''tool_usage_logs'', 1), (''findings_captured'', 0),
        (''retrieval_calls'', 0), (''plan_generations'', 0), (''preference_logs'', 0),
        (''monitoring_events'', 1)]"
    by (simp add: eval_defs accepting_graph_def)
  have rd: "\<exists>x. fst (get_monitoring_dashboard_data raising_graph (world ?r)) = Inr x"
    by (simp add: accepting_graph_def raising_graph_def)
  have ad: "\<exists>x. fst (get_monitoring_dashboard_data accepting_graph (world ?a)) = Inr x"
    by (simp add: accepting_graph_def)
  have 1: "\<exists>d. fst (get_integration_health raising_graph ?r) = Inr d
        \<and> map_of d ''status'' = Some (PStr ''idle'')
        \<and> map_of d ''total_events_processed'' = Some (PInt 0)"
  proof -
    from health_status_active_iff_processed [of raising_graph "[]" ?rc]
    obtain m t f r p u v where
      eq: "integration_stats ?r =
         [(''memory_writes'', m), (''tool_usage_logs'', t), (''findings_captured'', f),
          (''retrieval_calls'', r), (''plan_generations'', p), (''preference_logs'', u),
          (''monitoring_events'', v)]"
      and snap: "\<forall>d s'. get_integration_health raising_graph ?r = (Inr d, s') \<longrightarrow>
          map_of d ''total_events_processed'' = Some (PInt (m + t + f + r + p + u + v))
        \<and> (map_of d ''status'' = Some (PStr ''active'') \<longleftrightarrow> 0 < m + t + f + r + p + u + v)
        \<and> (map_of d ''status'' = Some (PStr ''idle'') \<longleftrightarrow> \<not> 0 < m + t + f + r + p + u + v)
        \<and> (map_of d ''status'' = Some (PStr ''active'') \<longrightarrow>
             (\<forall>more d' s''.
                 get_integration_health raising_graph (run raising_graph more ?r) = (Inr d', s'') \<longrightarrow>
                 map_of d' ''status'' = Some (PStr ''active'')))"
      and ret: "(\<exists>x. fst (get_monitoring_dashboard_data raising_graph (world ?r)) = Inr x) \<longrightarrow>
          (\<exists>d. fst (get_integration_health raising_graph ?r) = Inr d)"
      by (elim exE conjE) (rule that, assumption+)
    from eq r0 have sum0: "m + t + f + r + p + u + v = 0" by simp
    from ret rd obtain d where d: "fst (get_integration_health raising_graph ?r) = Inr d" by blast
    then have "get_integration_health raising_graph ?r = (Inr d, snd (get_integration_health raising_graph ?r))"
      by (metis prod.collapse)
    note facts = snap [rule_format, OF this]
    from facts sum0 d show ?thesis by simp
  qed
  have 2: "\<exists>d. fst (get_integration_health accepting_graph ?a) = Inr d
        \<and> map_of d ''status'' = Some (PStr ''active'')
        \<and> map_of d ''total_events_processed'' = Some (PInt 3)"
  proof -
    from health_status_active_iff_processed [of accepting_graph "[]" ?ac]
    obtain m t f r p u v where
      eq: "integration_stats ?a =
         [(''memory_writes'', m), (''tool_usage_logs'', t), (''findings_captured'', f),
          (''retrieval_calls'', r), (''plan_generations'', p), (''preference_logs'', u),
          (''monitoring_events'', v)]"
      and snap: "\<forall>d s'. get_integration_health accepting_graph ?a = (Inr d, s') \<longrightarrow>
          map_of d ''total_events_processed'' = Some (PInt (m + t + f + r + p + u + v))
        \<and> (map_of d ''status'' = Some (PStr ''active'') \<longleftrightarrow> 0 < m + t + f + r + p + u + v)
        \<and> (map_of d ''status'' = Some (PStr ''idle'') \<longleftrightarrow> \<not> 0 < m + t + f + r + p + u + v)
        \<and> (map_of d ''status'' = Some (PStr ''active'') \<longrightarrow>
             (\<forall>more d' s''.
                 get_integration_health accepting_graph (run accepting_graph more ?a) = (Inr d', s'') \<longrightarrow>
                 map_of d' ''status'' = Some (PStr ''active'')))"
      and ret: "(\<exists>x. fst (get_monitoring_dashboard_data accepting_graph (world ?a)) = Inr x) \<longrightarrow>
          (\<exists>d. fst (get_integration_health accepting_graph ?a) = Inr d)"
      by (elim exE conjE) (rule that, assumption+)
    from eq a3 have sum3: "m + t + f + r + p + u + v = 3" by simp
    from ret ad obtain d where d: "fst (get_integration_health accepting_graph ?a) = Inr d" by blast
    then have "get_integration_health accepting_graph ?a = (Inr d, snd (get_integration_health accepting_graph ?a))"
      by (metis prod.collapse)
    note facts = snap [rule_format, OF this]
    from facts sum3 d show ?thesis by simp
  qed
  from 1 2 show ?thesis by blast
qed

text \<open>
  C9.  After every finite sequence of calls on a freshly constructed instance the hook
  registry holds seven entries; no hook invocation, query, flush or \<^verbatim>\<open>integrate_*\<close> call
  changes it; so \<^verbatim>\<open>get_integration_statistics\<close> reports \<^verbatim>\<open>hooks_registered\<close> = 7 and
  \<^verbatim>\<open>get_integration_health\<close> reports \<^verbatim>\<open>integration_points_active\<close> = 7 whenever they return.
\<close>

theorem hook_registry_always_seven:
  "length (integration_hooks (state_after sg w cs)) = 7
   \<and> integration_hooks (perform sg c (state_after sg w cs)) = integration_hooks (state_after sg w cs)
   \<and> integration_hooks (snd (integrate_memory_manager sg memory_manager (state_after sg w cs)))
        = integration_hooks (state_after sg w cs)
   \<and> integration_hooks (snd (integrate_tool_executor sg tool_executor (state_after sg w cs)))
        = integration_hooks (state_after sg w cs)
   \<and> integration_hooks (snd (integrate_research_loop sg research_agent (state_after sg w cs)))
        = integration_hooks (state_after sg w cs)
   \<and> integration_hooks (snd (integrate_rlhf_system sg rlhf_system (state_after sg w cs)))
        = integration_hooks (state_after sg w cs)
   \<and> (\<forall>d s'. get_integration_statistics sg (state_after sg w cs) = (Inr d, s') \<longrightarrow>
          map_of d ''hooks_registered'' = Some (PInt 7))
   \<and> (\<forall>d s'. get_integration_health sg (state_after sg w cs) = (Inr d, s') \<longrightarrow>
          map_of d ''integration_points_active'' = Some (PInt 7))"
proof -
  let ?s = "state_after sg w cs"
  have hooks: "integration_hooks ?s = register_integration_hooks []"
    unfolding state_after_def by (rule hooks_after_run)
  have len: "length (integration_hooks ?s) = 7"
    by (simp add: hooks register_integration_hooks_empty)
  have step: "integration_hooks (perform sg c ?s) = integration_hooks ?s"
    using grows_perform [of ?s sg c] by (simp add: grows_def)
  have mm: "integration_hooks (snd (integrate_memory_manager sg memory_manager ?s)) = integration_hooks ?s"
    by (simp add: integrate_memory_manager_def Let_def)
  have te: "integration_hooks (snd (integrate_tool_executor sg tool_executor ?s)) = integration_hooks ?s"
    by (simp add: integrate_tool_executor_def Let_def)
  have ra: "integration_hooks (snd (integrate_research_loop sg research_agent ?s)) = integration_hooks ?s"
    by (simp add: integrate_research_loop_def Let_def)
  have rl: "integration_hooks (snd (integrate_rlhf_system sg rlhf_system ?s)) = integration_hooks ?s"
    by (simp add: integrate_rlhf_system_def Let_def split: option.splits)
  have st: "\<forall>d s'. get_integration_statistics sg ?s = (Inr d, s') \<longrightarrow>
          map_of d ''hooks_registered'' = Some (PInt 7)"
    by (auto simp: get_integration_statistics_result len split: prod.splits sum.splits)
  have he: "\<forall>d s'. get_integration_health sg ?s = (Inr d, s') \<longrightarrow>
          map_of d ''integration_points_active'' = Some (PInt 7)"
    by (auto simp: get_integration_health_result len split: prod.splits sum.splits)
  from len step mm te ra rl st he show ?thesis by blast
qed

theorem hook_registry_always_seven_witness:
  "(\<exists>d. fst (get_integration_statistics accepting_graph
            (state_after accepting_graph [] [CallHook HandleMonitoring [], ProcessPendingEvents])) = Inr d
        \<and> map_of d ''hooks_registered'' = Some (PInt 7))
   \<and> (\<exists>d. fst (get_integration_health accepting_graph
            (state_after accepting_graph [] [CallHook HandleMonitoring [], ProcessPendingEvents])) = Inr d
        \<and> map_of d ''integration_points_active'' = Some (PInt 7))"
proof -
  let ?s = "state_after accepting_graph [] [CallHook HandleMonitoring [], ProcessPendingEvents]"
  have s: "\<exists>d. fst (get_integration_statistics accepting_graph ?s) = Inr d"
    by (simp add: get_integration_statistics_result accepting_graph_def)
  have h: "\<exists>d. fst (get_integration_health accepting_graph ?s) = Inr d"
    by (simp add: get_integration_health_result accepting_graph_def)
  from hook_registry_always_seven
         [of accepting_graph "[]" "[CallHook HandleMonitoring [], ProcessPendingEvents]"] s h
  show ?thesis by (metis prod.collapse)
qed

text \<open>
  C10.  In every state, whatever failed before, the snapshot of \<^verbatim>\<open>get_integration_health\<close>
  has \<^verbatim>\<open>integration_errors\<close> = 0 (and the call returns whenever the graph's dashboard call
  does): the entry is a constant and reflects no past error.
\<close>

theorem health_integration_errors_always_zero:
  "(\<forall>d s'. get_integration_health sg s = (Inr d, s') \<longrightarrow>
        map_of d ''integration_errors'' = Some (PInt 0))
   \<and> ((\<exists>x. fst (get_monitoring_dashboard_data sg (world s)) = Inr x) \<longrightarrow>
        (\<exists>d. fst (get_integration_health sg s) = Inr d))"
proof (cases "get_monitoring_dashboard_data sg (world s)")
  case (Pair r w')
  show ?thesis
  proof (cases r)
    case (Inl e)
    with Pair have "get_integration_health sg s = (Inl e, s\<lparr>world := w'\<rparr>)"
      by (simp add: get_integration_health_result)
    with Pair Inl show ?thesis by simp
  next
    case (Inr dashboard)
    with Pair have "\<exists>d. get_integration_health sg s = (Inr d, s\<lparr>world := w'\<rparr>)
        \<and> map_of d ''integration_errors'' = Some (PInt 0)"
      by (simp add: get_integration_health_result)
    then show ?thesis by auto
  qed
qed

theorem health_integration_errors_always_zero_witness:
  "length (filter (\<lambda>entry. fst entry = ''ERROR'')
       (logged (state_after raising_graph [] [CallHook HandleMemoryOutput [], CallHook HandleMonitoring []]))) = 2
   \<and> (\<exists>d. fst (get_integration_health raising_graph
            (state_after raising_graph [] [CallHook HandleMemoryOutput [], CallHook HandleMonitoring []])) = Inr d
        \<and> map_of d ''integration_errors'' = Some (PInt 0))"
proof -
  let ?s = "state_after raising_graph [] [CallHook HandleMemoryOutput [], CallHook HandleMonitoring []]"
  have errs: "length (filter (\<lambda>entry. fst entry = ''ERROR'') (logged ?s)) = 2"
    by (simp add: eval_defs accepting_graph_def raising_graph_def)
  have dash: "\<exists>x. fst (get_monitoring_dashboard_data raising_graph (world ?s)) = Inr x"
    by (simp add: accepting_graph_def raising_graph_def)
  from health_integration_errors_always_zero [of raising_graph ?s] dash errs
  show ?thesis by (metis prod.collapse)
qed

section \<open>Failures of the forwarding calls\<close>

lemma py_bind_in_world:
  "py_bind (in_world g) f s =
     (case g (world s) of
        (Inl e, w') \<Rightarrow> (Inl e, s\<lparr>world := w'\<rparr>)
      | (Inr v, w') \<Rightarrow> f v (s\<lparr>world := w'\<rparr>))"
  by (simp add: py_bind_def in_world_def split: prod.splits sum.splits)

lemma fails_clean_bind: "fails_clean m s \<Longrightarrow> fails_clean (py_bind m k) s"
  by (auto simp: fails_clean_def py_bind_def)

lemma fails_clean_in_world: "raises_at g (world s) \<Longrightarrow> fails_clean (py_bind (in_world g) k) s"
  by (auto simp: fails_clean_def raises_at_def py_bind_in_world)

lemma fails_clean_read_world [simp]:
  "fails_clean (py_bind (read_world g) k) s = fails_clean (k (g (world s))) s"
  by (simp add: fails_clean_def)

lemma fails_clean_pure [simp]:
  "fails_clean (py_bind (py_pure r) k) s = (case r of Inl e \<Rightarrow> True | Inr v \<Rightarrow> fails_clean (k v) s)"
  by (auto simp: fails_clean_def split: sum.splits)

lemma fails_always_bind: "fails_always m \<Longrightarrow> fails_always (py_bind m k)"
  by (simp add: fails_always_def fails_clean_bind)

lemma fails_always_in_world: "\<forall>w. raises_at g w \<Longrightarrow> fails_always (in_world g)"
  by (auto simp: fails_always_def fails_clean_def raises_at_def in_world_def split: prod.splits)
     (metis Pair_inject)

lemma fails_always_after_quiet:
  assumes "quiet m" and "\<And>v. fails_always (k v)"
  shows "fails_always (py_bind m k)"
  unfolding fails_always_def
proof
  fix s
  obtain r s' where ms: "m s = (r, s')" by (cases "m s")
  with assms(1) have same: "integration_stats s' = integration_stats s"
    "integration_hooks s' = integration_hooks s" "logged s' = logged s"
    by (auto simp: quiet_def dest: spec [of _ s])
  show "fails_clean (py_bind m k) s"
  proof (cases r)
    case (Inl e)
    with ms same show ?thesis by (simp add: fails_clean_def py_bind_def)
  next
    case (Inr v)
    from assms(2) [of v] have "fails_clean (k v) s'" by (simp add: fails_always_def)
    with ms Inr same show ?thesis by (auto simp: fails_clean_def py_bind_def)
  qed
qed

lemma quiet_pure [simp]: "quiet (py_pure r)"
  by (simp add: quiet_def py_pure_def)

lemma quiet_return [simp]: "quiet (py_return v)"
  by (simp add: quiet_def)

lemma quiet_read_world [simp]: "quiet (read_world g)"
  by (simp add: quiet_def read_world_def)

lemma quiet_in_world [simp]: "quiet (in_world g)"
  by (simp add: quiet_def in_world_def split: prod.splits)

lemma contained_try:
  assumes "fails_clean body s"
  shows "contained shape logprefix
           (py_try body (\<lambda>e. py_bind (log_msg ''ERROR'' (logprefix @ exn_text e)) (\<lambda>_.
                               py_return (shape (exn_text e))))) s"
proof -
  from assms obtain e s' where b: "body s = (Inl e, s')"
    and same: "integration_stats s' = integration_stats s"
      "integration_hooks s' = integration_hooks s" "logged s' = logged s"
    by (auto simp: fails_clean_def)
  from b have "py_try body (\<lambda>e. py_bind (log_msg ''ERROR'' (logprefix @ exn_text e)) (\<lambda>_.
                  py_return (shape (exn_text e)))) s
      = (Inr (shape (exn_text e)), s'\<lparr>logged := logged s' @ [(''ERROR'', logprefix @ exn_text e)]\<rparr>)"
    by (simp add: py_try_Inl)
  with same show ?thesis unfolding contained_def by auto
qed

lemma memory_forwarding_failure:
  assumes "\<forall>d. raises_at (ingest_event sg MEMORY d 2) (world s)"
  shows "contained (\<lambda>t. PStr (''Memory integration error: '' @ t)) ''Memory output integration failed: ''
           (handle_memory_output sg payload) s"
  unfolding handle_memory_output_def Let_def
  by (rule contained_try) (simp add: assms fails_clean_in_world)

lemma tool_forwarding_failure:
  assumes "\<forall>d. raises_at (ingest_event sg TOOL_USAGE d 1) (world s)"
  shows "contained (\<lambda>t. PStr (''Tool usage integration error: '' @ t)) ''Tool usage integration failed: ''
           (handle_tool_usage sg payload) s"
  unfolding handle_tool_usage_def Let_def
  by (rule contained_try) (simp add: assms fails_clean_in_world)

lemma finding_forwarding_failure:
  assumes "\<forall>d. raises_at (ingest_event sg RESEARCH_FINDINGS d 2) (world s)"
  shows "contained (\<lambda>t. PStr (''Finding capture error: '' @ t)) ''Finding capture integration failed: ''
           (handle_finding sg payload) s"
  unfolding handle_finding_def Let_def
  by (rule contained_try) (simp add: assms fails_clean_in_world split: sum.splits)

lemma monitoring_timing_failure:
  assumes "\<forall>n t. raises_at (record_operation_time sg n t) (world s)"
  shows "contained (\<lambda>t. PStr (''Monitoring integration error: '' @ t)) ''Monitoring integration failed: ''
           (handle_monitoring sg payload) s"
  unfolding handle_monitoring_def Let_def
  by (rule contained_try) (simp add: assms fails_clean_in_world split: sum.splits)

lemma fails_alwaysD: "fails_always m \<Longrightarrow> fails_clean m s"
  by (simp add: fails_always_def)

lemma monitoring_error_record_failure:
  assumes "\<not> py_truthy (dict_get payload ''success'' (PBool True))"
    and "\<forall>k w. raises_at (record_error sg k) w"
  shows "contained (\<lambda>t. PStr (''Monitoring integration error: '' @ t)) ''Monitoring integration failed: ''
           (handle_monitoring sg payload) s"
  unfolding handle_monitoring_def Let_def
  apply (rule contained_try)
  apply (rule fails_alwaysD)
  apply (rule fails_always_after_quiet, simp)
  apply (rule fails_always_after_quiet, simp)
  apply (rule fails_always_bind)
  apply (simp add: assms fails_always_in_world)
  done

lemma monitoring_context_event_failure:
  assumes "\<forall>t c r w. raises_at (record_context_event sg t c r) w"
  shows "contained (\<lambda>t. PStr (''Monitoring integration error: '' @ t)) ''Monitoring integration failed: ''
           (handle_monitoring sg payload) s"
  unfolding handle_monitoring_def Let_def
  apply (rule contained_try)
  apply (rule fails_alwaysD)
  apply (rule fails_always_after_quiet, simp)
  apply (rule fails_always_after_quiet, simp)
  apply (rule fails_always_after_quiet, simp)
  apply (rule fails_always_after_quiet, simp)
  apply (rule fails_always_bind)
  apply (simp add: assms fails_always_in_world)
  done

lemma retrieval_call_failure:
  assumes "\<forall>q emb st k nt. raises_at (enhanced_retrieval sg q emb st k nt) (world s)"
  shows "contained (\<lambda>t. PDict [(''error'', PStr t), (''results'', PList [])]) ''Retrieval integration failed: ''
           (handle_retrieval sg payload) s"
  unfolding handle_retrieval_def Let_def
  by (rule contained_try) (simp add: assms fails_clean_in_world)

lemma retrieval_log_failure:
  assumes "\<forall>d w. raises_at (ingest_event sg RETRIEVAL_LOGS d 1) w"
  shows "contained (\<lambda>t. PDict [(''error'', PStr t), (''results'', PList [])]) ''Retrieval integration failed: ''
           (handle_retrieval sg payload) s"
  unfolding handle_retrieval_def Let_def
  apply (rule contained_try)
  apply (rule fails_alwaysD)
  apply (rule fails_always_after_quiet, simp)
  apply (rule fails_always_after_quiet, simp)
  apply (rule fails_always_after_quiet, simp)
  apply (rule fails_always_after_quiet, simp)
  apply (rule fails_always_bind)
  apply (simp add: assms fails_always_in_world)
  done

text \<open>
  C2.  For every payload and every state: when the forwarding call of a normalizer raises
  (event ingestion for MemoryWrite, ToolUsage and Finding; the timing call, the error
  record of a failed step or the context event for Monitoring; the retrieval call or the
  log ingestion for Retrieval), the normalizer does not raise.  It returns the error
  message string of its kind (for Retrieval the dictionary with \<^verbatim>\<open>error\<close> and an empty
  \<^verbatim>\<open>results\<close> list), logs the error, and leaves every counter of \<^verbatim>\<open>integration_stats\<close> as it
  was.
\<close>

theorem forwarding_failure_is_contained:
  "((\<forall>d. raises_at (ingest_event sg MEMORY d 2) (world s)) \<longrightarrow>
      contained (\<lambda>t. PStr (''Memory integration error: '' @ t)) ''Memory output integration failed: ''
        (handle_memory_output sg payload) s)
   \<and> ((\<forall>d. raises_at (ingest_event sg TOOL_USAGE d 1) (world s)) \<longrightarrow>
      contained (\<lambda>t. PStr (''Tool usage integration error: '' @ t)) ''Tool usage integration failed: ''
        (handle_tool_usage sg payload) s)
   \<and> ((\<forall>d. raises_at (ingest_event sg RESEARCH_FINDINGS d 2) (world s)) \<longrightarrow>
      contained (\<lambda>t. PStr (''Finding capture error: '' @ t)) ''Finding capture integration failed: ''
        (handle_finding sg payload) s)
   \<and> ((\<forall>n t. raises_at (record_operation_time sg n t) (world s)) \<longrightarrow>
      contained (\<lambda>t. PStr (''Monitoring integration error: '' @ t)) ''Monitoring integration failed: ''
        (handle_monitoring sg payload) s)
   \<and> (\<not> py_truthy (dict_get payload ''success'' (PBool True)) \<and> (\<forall>k w. raises_at (record_error sg k) w) \<longrightarrow>
      contained (\<lambda>t. PStr (''Monitoring integration error: '' @ t)) ''Monitoring integration failed: ''
        (handle_monitoring sg payload) s)
   \<and> ((\<forall>t c r w. raises_at (record_context_event sg t c r) w) \<longrightarrow>
      contained (\<lambda>t. PStr (''Monitoring integration error: '' @ t)) ''Monitoring integration failed: ''
        (handle_monitoring sg payload) s)
   \<and> ((\<forall>q emb st k nt. raises_at (enhanced_retrieval sg q emb st k nt) (world s)) \<longrightarrow>
      contained (\<lambda>t. PDict [(''error'', PStr t), (''results'', PList [])]) ''Retrieval integration failed: ''
        (handle_retrieval sg payload) s)
   \<and> ((\<forall>d w. raises_at (ingest_event sg RETRIEVAL_LOGS d 1) w) \<longrightarrow>
      contained (\<lambda>t. PDict [(''error'', PStr t), (''results'', PList [])]) ''Retrieval integration failed: ''
        (handle_retrieval sg payload) s)"
  using memory_forwarding_failure [of sg s payload] tool_forwarding_failure [of sg s payload]
    finding_forwarding_failure [of sg s payload] monitoring_timing_failure [of sg s payload]
    monitoring_error_record_failure [of payload sg s]
    monitoring_context_event_failure [of sg payload s]
    retrieval_call_failure [of sg s payload] retrieval_log_failure [of sg payload s]
  by blast

theorem forwarding_failure_is_contained_witness:
  "contained (\<lambda>t. PStr (''Memory integration error: '' @ t)) ''Memory output integration failed: ''
     (handle_memory_output raising_graph [(''success'', PBool False)]) (init_integration [])
   \<and> contained (\<lambda>t. PStr (''Tool usage integration error: '' @ t)) ''Tool usage integration failed: ''
     (handle_tool_usage raising_graph [(''success'', PBool False)]) (init_integration [])
   \<and> contained (\<lambda>t. PStr (''Finding capture error: '' @ t)) ''Finding capture integration failed: ''
     (handle_finding raising_graph [(''success'', PBool False)]) (init_integration [])
   \<and> contained (\<lambda>t. PStr (''Monitoring integration error: '' @ t)) ''Monitoring integration failed: ''
     (handle_monitoring raising_graph [(''success'', PBool False)]) (init_integration [])
   \<and> contained (\<lambda>t. PDict [(''error'', PStr t), (''results'', PList [])]) ''Retrieval integration failed: ''
     (handle_retrieval raising_graph [(''success'', PBool False)]) (init_integration [])
   \<and> handle_memory_output raising_graph [(''success'', PBool False)] (init_integration []) =
       (Inr (PStr ''Memory integration error: graph backend unavailable''),
        (init_integration [])\<lparr>logged := logged (init_integration ([] :: string list)) @
           [(''ERROR'', ''Memory output integration failed: graph backend unavailable'')]\<rparr>)"
proof -
  have m: "\<forall>d. raises_at (ingest_event raising_graph MEMORY d 2) (world (init_integration []))"
    by (simp add: raises_at_def raising_graph_def)
  have t: "\<forall>d. raises_at (ingest_event raising_graph TOOL_USAGE d 1) (world (init_integration []))"
    by (simp add: raises_at_def raising_graph_def)
  have f: "\<forall>d. raises_at (ingest_event raising_graph RESEARCH_FINDINGS d 2) (world (init_integration []))"
    by (simp add: raises_at_def raising_graph_def)
  have o: "\<forall>n t. raises_at (record_operation_time raising_graph n t) (world (init_integration []))"
    by (simp add: raises_at_def raising_graph_def)
  have e: "\<not> py_truthy (dict_get [(''success'', PBool False)] ''success'' (PBool True))
      \<and> (\<forall>k w. raises_at (record_error raising_graph k) w)"
    by (simp add: raises_at_def raising_graph_def dict_get_def)
  have c: "\<forall>t c r w. raises_at (record_context_event raising_graph t c r) w"
    by (simp add: raises_at_def raising_graph_def)
  have r: "\<forall>q emb st k nt. raises_at (enhanced_retrieval raising_graph q emb st k nt) (world (init_integration []))"
    by (simp add: raises_at_def raising_graph_def)
  have l: "\<forall>d w. raises_at (ingest_event raising_graph RETRIEVAL_LOGS d 1) w"
    by (simp add: raises_at_def raising_graph_def)
  have ev: "handle_memory_output raising_graph [(''success'', PBool False)] (init_integration []) =
       (Inr (PStr ''Memory integration error: graph backend unavailable''),
        (init_integration [])\<lparr>logged := logged (init_integration ([] :: string list)) @
           [(''ERROR'', ''Memory output integration failed: graph backend unavailable'')]\<rparr>)"
    by (simp add: eval_defs accepting_graph_def raising_graph_def)
  from forwarding_failure_is_contained [of raising_graph "init_integration []" "[(''success'', PBool False)]"]
    m t f o e c r l ev
  show ?thesis by blast
qed

section \<open>Normalizers on the empty payload, and retrieval\<close>

lemma bumped_dict_set:
  assumes "map_of (integration_stats s) k = Some c"
    and "integration_stats s' = dict_set (integration_stats s) k (c + 1)"
  shows "bumped k s s'"
  using assms by (simp add: bumped_def dict_set_def update_conv')

lemmas success_defs =
  py_try_def py_bind_def py_pure_def in_world_def incr_stat_def read_world_def
  dict_get_def Let_def

lemma memory_default_success:
  assumes "map_of (integration_stats s) ''memory_writes'' = Some c"
    and "ingest_event sg MEMORY
           [(''content'', PStr []), (''importance'', PFloat 0.5), (''memory_type'', PStr ''general''),
            (''session_id'', PStr ''default''), (''timestamp'', PStr (now_isoformat sg (world s))),
            (''source'', PStr ''memory_manager'')] 2 (world s) = (Inr (), w')"
  shows "handle_memory_output sg [] s =
           (Inr (PStr ''Memory content ingested into semantic graph: 0 chars''),
            s\<lparr>world := w', integration_stats := dict_set (integration_stats s) ''memory_writes'' (c + 1)\<rparr>)"
  using assms by (simp add: handle_memory_output_def success_defs show_nat.simps digit_char_def)

lemma tool_default_success:
  assumes "map_of (integration_stats s) ''tool_usage_logs'' = Some c"
    and "ingest_event sg TOOL_USAGE
           [(''tool_name'', PStr []), (''input'', PStr []), (''output'', PStr []),
            (''execution_time'', PFloat 0), (''success'', PBool True),
            (''timestamp'', PStr (now_isoformat sg (world s))),
            (''usage_context'', PStr ''research'')] 1 (world s) = (Inr (), w')"
  shows "handle_tool_usage sg [] s =
           (Inr (PStr ''Tool usage logged:  -> semantic graph''),
            s\<lparr>world := w', integration_stats := dict_set (integration_stats s) ''tool_usage_logs'' (c + 1)\<rparr>)"
  using assms by (simp add: handle_tool_usage_def success_defs py_str_def)

lemma finding_default_success:
  assumes "map_of (integration_stats s) ''findings_captured'' = Some c"
    and "ingest_event sg RESEARCH_FINDINGS
           [(''finding'', PStr []), (''analysis'', PStr []), (''confidence'', PFloat 0.5),
            (''sources'', PList []), (''step_info'', PDict []), (''research_step'', PInt 0),
            (''timestamp'', PStr (now_isoformat sg (world s)))] 2 (world s) = (Inr (), w')"
  shows "handle_finding sg [] s =
           (Inr (PStr ''Research finding captured: 0 chars''),
            s\<lparr>world := w', integration_stats := dict_set (integration_stats s) ''findings_captured'' (c + 1)\<rparr>)"
  using assms by (simp add: handle_finding_def success_defs show_nat.simps digit_char_def)

lemma retrieval_success:
  assumes "map_of (integration_stats s) ''retrieval_calls'' = Some c"
    and "enhanced_retrieval sg (dict_get payload ''query'' (PStr []))
           (dict_get payload ''query_embedding'' PNone) (dict_get payload ''strategy'' (PStr ''hybrid''))
           (dict_get payload ''top_k'' (PInt 10)) (dict_get payload ''node_types'' PNone) (world s)
         = (Inr results, w1)"
    and "py_get results ''results'' (PList []) = Inr found"
    and "py_len found = Inr n"
    and "ingest_event sg RETRIEVAL_LOGS
           [(''query'', dict_get payload ''query'' (PStr [])),
            (''strategy'', dict_get payload ''strategy'' (PStr ''hybrid'')),
            (''results_count'', PInt (int n)),
            (''timestamp'', PStr (now_isoformat sg w1))] 1 w1 = (Inr (), w2)"
  shows "handle_retrieval sg payload s =
           (Inr results,
            s\<lparr>world := w2, integration_stats := dict_set (integration_stats s) ''retrieval_calls'' (c + 1)\<rparr>)"
  using assms
  by (simp add: handle_retrieval_def py_try_def py_bind_def py_pure_def in_world_def
        incr_stat_def read_world_def Let_def)

lemma planning_default_success:
  assumes "map_of (integration_stats s) ''plan_generations'' = Some c"
    and "enhanced_planning sg (PStr []) (PDict []) (PStr ''hybrid'') (PInt 8) (world s) = (Inr plan, w1)"
    and "py_get plan ''plan_steps'' (PList []) = Inr steps"
    and "py_len steps = Inr n"
    and "py_get plan ''graph_connectivity'' (PDict []) = Inr connectivity"
    and "ingest_event sg PLANNER_OUTPUTS
           [(''research_question'', PStr []), (''strategy'', PStr ''hybrid''),
            (''plan_steps'', PInt (int n)), (''graph_connectivity'', connectivity),
            (''timestamp'', PStr (now_isoformat sg w1))] 2 w1 = (Inr (), w2)"
  shows "handle_planning sg [] s =
           (Inr plan,
            s\<lparr>world := w2, integration_stats := dict_set (integration_stats s) ''plan_generations'' (c + 1)\<rparr>)"
  using assms by (simp add: handle_planning_def success_defs)

lemma preference_default_success:
  assumes "map_of (integration_stats s) ''preference_logs'' = Some c"
    and "record_user_feedback sg (PStr ''anonymous'') (PStr []) (PStr []) (PStr ''quality'')
           (PFloat 1) (PStr []) (world s) = (Inr preference_id, w')"
  shows "handle_preference sg [] s =
           (Inr (PStr (''User preference recorded: '' @ py_str sg preference_id)),
            s\<lparr>world := w', integration_stats := dict_set (integration_stats s) ''preference_logs'' (c + 1)\<rparr>)"
  using assms by (simp add: handle_preference_def success_defs)

lemma monitoring_default_success:
  assumes "map_of (integration_stats s) ''monitoring_events'' = Some c"
    and "record_operation_time sg (PStr ''unknown'') (PFloat 0) (world s) = (Inr (), w1)"
    and "record_context_event sg ''monitoring''
           (''Step: unknown, Time: '' @ format_2f sg 0 @ ''s'') 0.3 w1 = (Inr (), w2)"
  shows "handle_monitoring sg [] s =
           (Inr (PStr ''Monitoring data recorded for step: unknown''),
            s\<lparr>world := w2, integration_stats := dict_set (integration_stats s) ''monitoring_events'' (c + 1)\<rparr>)"
  using assms by (simp add: handle_monitoring_def success_defs py_str_def py_format_2f_def)

lemma counter_present:
  assumes "k \<in> set [''memory_writes'', ''tool_usage_logs'', ''findings_captured'', ''retrieval_calls'',
                     ''plan_generations'', ''preference_logs'', ''monitoring_events'']"
  shows "\<exists>c. map_of (integration_stats (state_after sg w cs)) k = Some c"
proof -
  from stats_after_run [of sg cs w] obtain m t f r p u v where
    "integration_stats (state_after sg w cs) =
       [(''memory_writes'', m), (''tool_usage_logs'', t), (''findings_captured'', f),
        (''retrieval_calls'', r), (''plan_generations'', p), (''preference_logs'', u),
        (''monitoring_events'', v)]"
    unfolding state_after_def by blast
  with assms show ?thesis by auto
qed

text \<open>
  C7 as stated fails for Retrieval and Planning: success of the calls into the semantic
  graph is not enough for the counter to go up.  In \<^verbatim>\<open>_handle_retrieval\<close> the expression
  \<^verbatim>\<open>len(results.get('results', []))\<close> is evaluated inside the \<^verbatim>\<open>try\<close> before the increment, and
  in \<^verbatim>\<open>_handle_planning\<close> so is \<^verbatim>\<open>len(plan.get('plan_steps', []))\<close>.  With a graph whose every call
  succeeds, whose retrieval answers \<^verbatim>\<open>{'results': None}\<close> and whose planning answers a list,
  both normalizers called with the empty payload make one call into the graph, which
  succeeds, and then return the error dictionary; \<^verbatim>\<open>retrieval_calls\<close> and
  \<^verbatim>\<open>plan_generations\<close> stay 0.
\<close>

theorem empty_payload_not_counted_when_answer_unsized:
  "enhanced_retrieval unsized_graph (PStr []) PNone (PStr ''hybrid'') (PInt 10) PNone
       (world (init_integration []))
     = (Inr (PDict [(''results'', PNone)]), [''enhanced_retrieval''])
   \<and> fst (handle_retrieval unsized_graph [] (init_integration []))
     = Inr (PDict [(''error'', PStr (''object of type '' @ squote ''NoneType'' @ '' has no len()'')),
                   (''results'', PList [])])
   \<and> world (snd (handle_retrieval unsized_graph [] (init_integration []))) = [''enhanced_retrieval'']
   \<and> map_of (integration_stats (snd (handle_retrieval unsized_graph [] (init_integration []))))
       ''retrieval_calls'' = Some 0
   \<and> enhanced_planning unsized_graph (PStr []) (PDict []) (PStr ''hybrid'') (PInt 8)
       (world (init_integration []))
     = (Inr (PList []), [''enhanced_planning''])
   \<and> fst (handle_planning unsized_graph [] (init_integration []))
     = Inr (PDict [(''error'', PStr (squote ''list'' @ '' object has no attribute '' @ squote ''get'')),
                   (''plan_steps'', PList [])])
   \<and> world (snd (handle_planning unsized_graph [] (init_integration []))) = [''enhanced_planning'']
   \<and> map_of (integration_stats (snd (handle_planning unsized_graph [] (init_integration []))))
       ''plan_generations'' = Some 0"
  by (simp add: eval_defs accepting_graph_def unsized_graph_def)

text \<open>
  C7, amended.  On any state reached from a fresh instance, every normalizer called with the
  empty payload returns without raising.  When the calls it makes into the semantic graph
  succeed and, for Retrieval and Planning, the answer is moreover a mapping whose
  \<^verbatim>\<open>results\<close> (respectively \<^verbatim>\<open>plan_steps\<close>) entry has a length, the call it forwards carries
  the documented defaults: content \<^verbatim>\<open>""\<close>, importance 0.5, memory type \<^verbatim>\<open>general\<close>, session
  \<^verbatim>\<open>default\<close>; tool name \<^verbatim>\<open>""\<close>, success true; finding \<^verbatim>\<open>""\<close>, confidence 0.5; query \<^verbatim>\<open>""\<close>,
  strategy \<^verbatim>\<open>hybrid\<close>, top-k 10, at most 8 steps; user \<^verbatim>\<open>anonymous\<close>, feedback type \<^verbatim>\<open>quality\<close>;
  step name \<^verbatim>\<open>unknown\<close>, duration 0.0.  The normalizer then returns its acknowledgment (or the
  live result), and exactly the counter of its kind goes up by one while the other six stay.
\<close>

theorem empty_payload_defaults_and_one_count:
  assumes s: "s = state_after sg w cs"
  shows
  "(\<forall>h. \<exists>v. fst (call_hook sg h [] s) = Inr v)
   \<and> (\<forall>w'. ingest_event sg MEMORY
           [(''content'', PStr []), (''importance'', PFloat 0.5), (''memory_type'', PStr ''general''),
            (''session_id'', PStr ''default''), (''timestamp'', PStr (now_isoformat sg (world s))),
            (''source'', PStr ''memory_manager'')] 2 (world s) = (Inr (), w') \<longrightarrow>
        (\<exists>s'. handle_memory_output sg [] s =
                 (Inr (PStr ''Memory content ingested into semantic graph: 0 chars''), s')
              \<and> world s' = w' \<and> bumped ''memory_writes'' s s'))
   \<and> (\<forall>w'. ingest_event sg TOOL_USAGE
           [(''tool_name'', PStr []), (''input'', PStr []), (''output'', PStr []),
            (''execution_time'', PFloat 0), (''success'', PBool True),
            (''timestamp'', PStr (now_isoformat sg (world s))),
            (''usage_context'', PStr ''research'')] 1 (world s) = (Inr (), w') \<longrightarrow>
        (\<exists>s'. handle_tool_usage sg [] s = (Inr (PStr ''Tool usage logged:  -> semantic graph''), s')
              \<and> world s' = w' \<and> bumped ''tool_usage_logs'' s s'))
   \<and> (\<forall>w'. ingest_event sg RESEARCH_FINDINGS
           [(''finding'', PStr []), (''analysis'', PStr []), (''confidence'', PFloat 0.5),
            (''sources'', PList []), (''step_info'', PDict []), (''research_step'', PInt 0),
            (''timestamp'', PStr (now_isoformat sg (world s)))] 2 (world s) = (Inr (), w') \<longrightarrow>
        (\<exists>s'. handle_finding sg [] s = (Inr (PStr ''Research finding captured: 0 chars''), s')
              \<and> world s' = w' \<and> bumped ''findings_captured'' s s'))
   \<and> (\<forall>results w1 found n w2.
          enhanced_retrieval sg (PStr []) PNone (PStr ''hybrid'') (PInt 10) PNone (world s) = (Inr results, w1)
        \<and> py_get results ''results'' (PList []) = Inr found \<and> py_len found = Inr n
        \<and> ingest_event sg RETRIEVAL_LOGS
             [(''query'', PStr []), (''strategy'', PStr ''hybrid''), (''results_count'', PInt (int n)),
              (''timestamp'', PStr (now_isoformat sg w1))] 1 w1 = (Inr (), w2) \<longrightarrow>
        (\<exists>s'. handle_retrieval sg [] s = (Inr results, s')
              \<and> world s' = w2 \<and> bumped ''retrieval_calls'' s s'))
   \<and> (\<forall>plan w1 steps n connectivity w2.
          enhanced_planning sg (PStr []) (PDict []) (PStr ''hybrid'') (PInt 8) (world s) = (Inr plan, w1)
        \<and> py_get plan ''plan_steps'' (PList []) = Inr steps \<and> py_len steps = Inr n
        \<and> py_get plan ''graph_connectivity'' (PDict []) = Inr connectivity
        \<and> ingest_event sg PLANNER_OUTPUTS
             [(''research_question'', PStr []), (''strategy'', PStr ''hybrid''),
              (''plan_steps'', PInt (int n)), (''graph_connectivity'', connectivity),
              (''timestamp'', PStr (now_isoformat sg w1))] 2 w1 = (Inr (), w2) \<longrightarrow>
        (\<exists>s'. handle_planning sg [] s = (Inr plan, s')
              \<and> world s' = w2 \<and> bumped ''plan_generations'' s s'))
   \<and> (\<forall>preference_id w'.
          record_user_feedback sg (PStr ''anonymous'') (PStr []) (PStr []) (PStr ''quality'')
            (PFloat 1) (PStr []) (world s) = (Inr preference_id, w') \<longrightarrow>
        (\<exists>s'. handle_preference sg [] s =
                 (Inr (PStr (''User preference recorded: '' @ py_str sg preference_id)), s')
              \<and> world s' = w' \<and> bumped ''preference_logs'' s s'))
   \<and> (\<forall>w1 w2.
          record_operation_time sg (PStr ''unknown'') (PFloat 0) (world s) = (Inr (), w1)
        \<and> record_context_event sg ''monitoring''
             (''Step: unknown, Time: '' @ format_2f sg 0 @ ''s'') 0.3 w1 = (Inr (), w2) \<longrightarrow>
        (\<exists>s'. handle_monitoring sg [] s = (Inr (PStr ''Monitoring data recorded for step: unknown''), s')
              \<and> world s' = w2 \<and> bumped ''monitoring_events'' s s'))"
proof -
  have present: "\<exists>c. map_of (integration_stats s) k = Some c"
    if "k \<in> set [''memory_writes'', ''tool_usage_logs'', ''findings_captured'', ''retrieval_calls'',
                  ''plan_generations'', ''preference_logs'', ''monitoring_events'']" for k
    unfolding s using that by (rule counter_present)
  have never: "\<forall>h. \<exists>v. fst (call_hook sg h [] s) = Inr v"
    using returns_call_hook [of sg _ "[]"] by (simp add: returns_def)
  have mem: "\<exists>s'. handle_memory_output sg [] s =
                 (Inr (PStr ''Memory content ingested into semantic graph: 0 chars''), s')
              \<and> world s' = w' \<and> bumped ''memory_writes'' s s'"
    if "ingest_event sg MEMORY
           [(''content'', PStr []), (''importance'', PFloat 0.5), (''memory_type'', PStr ''general''),
            (''session_id'', PStr ''default''), (''timestamp'', PStr (now_isoformat sg (world s))),
            (''source'', PStr ''memory_manager'')] 2 (world s) = (Inr (), w')" for w'
  proof -
    from present [of "''memory_writes''"] obtain c where c: "map_of (integration_stats s) ''memory_writes'' = Some c"
      by auto
    from memory_default_success [OF c that] bumped_dict_set [OF c] show ?thesis by simp
  qed
  have tool: "\<exists>s'. handle_tool_usage sg [] s = (Inr (PStr ''Tool usage logged:  -> semantic graph''), s')
              \<and> world s' = w' \<and> bumped ''tool_usage_logs'' s s'"
    if "ingest_event sg TOOL_USAGE
           [(''tool_name'', PStr []), (''input'', PStr []), (''output'', PStr []),
            (''execution_time'', PFloat 0), (''success'', PBool True),
            (''timestamp'', PStr (now_isoformat sg (world s))),
            (''usage_context'', PStr ''research'')] 1 (world s) = (Inr (), w')" for w'
  proof -
    from present [of "''tool_usage_logs''"] obtain c where c: "map_of (integration_stats s) ''tool_usage_logs'' = Some c"
      by auto
    from tool_default_success [OF c that] bumped_dict_set [OF c] show ?thesis by simp
  qed
  have find: "\<exists>s'. handle_finding sg [] s = (Inr (PStr ''Research finding captured: 0 chars''), s')
              \<and> world s' = w' \<and> bumped ''findings_captured'' s s'"
    if "ingest_event sg RESEARCH_FINDINGS
           [(''finding'', PStr []), (''analysis'', PStr []), (''confidence'', PFloat 0.5),
            (''sources'', PList []), (''step_info'', PDict []), (''research_step'', PInt 0),
            (''timestamp'', PStr (now_isoformat sg (world s)))] 2 (world s) = (Inr (), w')" for w'
  proof -
    from present [of "''findings_captured''"] obtain c where c: "map_of (integration_stats s) ''findings_captured'' = Some c"
      by auto
    from finding_default_success [OF c that] bumped_dict_set [OF c] show ?thesis by simp
  qed
  have retr: "\<exists>s'. handle_retrieval sg [] s = (Inr results, s')
              \<and> world s' = w2 \<and> bumped ''retrieval_calls'' s s'"
    if "enhanced_retrieval sg (PStr []) PNone (PStr ''hybrid'') (PInt 10) PNone (world s) = (Inr results, w1)"
      and "py_get results ''results'' (PList []) = Inr found" and "py_len found = Inr n"
      and "ingest_event sg RETRIEVAL_LOGS
             [(''query'', PStr []), (''strategy'', PStr ''hybrid''), (''results_count'', PInt (int n)),
              (''timestamp'', PStr (now_isoformat sg w1))] 1 w1 = (Inr (), w2)"
    for results w1 found n w2
  proof -
    from present [of "''retrieval_calls''"] obtain c where c: "map_of (integration_stats s) ''retrieval_calls'' = Some c"
      by auto
    from that have "handle_retrieval sg [] s =
           (Inr results,
            s\<lparr>world := w2, integration_stats := dict_set (integration_stats s) ''retrieval_calls'' (c + 1)\<rparr>)"
      by (intro retrieval_success [OF c, of sg "[]" results w1 found n w2]) (simp_all add: dict_get_def)
    with bumped_dict_set [OF c] show ?thesis by simp
  qed
  have plan: "\<exists>s'. handle_planning sg [] s = (Inr plan, s')
              \<and> world s' = w2 \<and> bumped ''plan_generations'' s s'"
    if "enhanced_planning sg (PStr []) (PDict []) (PStr ''hybrid'') (PInt 8) (world s) = (Inr plan, w1)"
      and "py_get plan ''plan_steps'' (PList []) = Inr steps" and "py_len steps = Inr n"
      and "py_get plan ''graph_connectivity'' (PDict []) = Inr connectivity"
      and "ingest_event sg PLANNER_OUTPUTS
             [(''research_question'', PStr []), (''strategy'', PStr ''hybrid''),
              (''plan_steps'', PInt (int n)), (''graph_connectivity'', connectivity),
              (''timestamp'', PStr (now_isoformat sg w1))] 2 w1 = (Inr (), w2)"
    for plan w1 steps n connectivity w2
  proof -
    from present [of "''plan_generations''"] obtain c where c: "map_of (integration_stats s) ''plan_generations'' = Some c"
      by auto
    from planning_default_success [OF c that] bumped_dict_set [OF c] show ?thesis by simp
  qed
  have pref: "\<exists>s'. handle_preference sg [] s =
                 (Inr (PStr (''User preference recorded: '' @ py_str sg preference_id)), s')
              \<and> world s' = w' \<and> bumped ''preference_logs'' s s'"
    if "record_user_feedback sg (PStr ''anonymous'') (PStr []) (PStr []) (PStr ''quality'')
            (PFloat 1) (PStr []) (world s) = (Inr preference_id, w')" for preference_id w'
  proof -
    from present [of "''preference_logs''"] obtain c where c: "map_of (integration_stats s) ''preference_logs'' = Some c"
      by auto
    from preference_default_success [OF c that] bumped_dict_set [OF c] show ?thesis by simp
  qed
  have moni: "\<exists>s'. handle_monitoring sg [] s = (Inr (PStr ''Monitoring data recorded for step: unknown''), s')
              \<and> world s' = w2 \<and> bumped ''monitoring_events'' s s'"
    if "record_operation_time sg (PStr ''unknown'') (PFloat 0) (world s) = (Inr (), w1)"
      and "record_context_event sg ''monitoring''
             (''Step: unknown, Time: '' @ format_2f sg 0 @ ''s'') 0.3 w1 = (Inr (), w2)" for w1 w2
  proof -
    from present [of "''monitoring_events''"] obtain c where c: "map_of (integration_stats s) ''monitoring_events'' = Some c"
      by auto
    from monitoring_default_success [OF c that] bumped_dict_set [OF c] show ?thesis by simp
  qed
  from never mem tool find retr plan pref moni show ?thesis by blast
qed

theorem empty_payload_defaults_and_one_count_witness:
  "(\<exists>s'. handle_memory_output accepting_graph [] (state_after accepting_graph [] []) =
            (Inr (PStr ''Memory content ingested into semantic graph: 0 chars''), s')
         \<and> bumped ''memory_writes'' (state_after accepting_graph [] []) s')
   \<and> (\<exists>s'. handle_tool_usage accepting_graph [] (state_after accepting_graph [] []) =
            (Inr (PStr ''Tool usage logged:  -> semantic graph''), s')
         \<and> bumped ''tool_usage_logs'' (state_after accepting_graph [] []) s')
   \<and> (\<exists>s'. handle_finding accepting_graph [] (state_after accepting_graph [] []) =
            (Inr (PStr ''Research finding captured: 0 chars''), s')
         \<and> bumped ''findings_captured'' (state_after accepting_graph [] []) s')
   \<and> (\<exists>s'. handle_retrieval accepting_graph [] (state_after accepting_graph [] []) =
            (Inr (PDict [(''results'', PList [PStr ''node-1'', PStr ''node-2''])]), s')
         \<and> bumped ''retrieval_calls'' (state_after accepting_graph [] []) s')
   \<and> (\<exists>s'. handle_planning accepting_graph [] (state_after accepting_graph [] []) =
            (Inr (PDict [(''plan_steps'', PList [PStr ''step-1''])]), s')
         \<and> bumped ''plan_generations'' (state_after accepting_graph [] []) s')
   \<and> (\<exists>s'. handle_preference accepting_graph [] (state_after accepting_graph [] []) =
            (Inr (PStr ''User preference recorded: pref-1''), s')
         \<and> bumped ''preference_logs'' (state_after accepting_graph [] []) s')
   \<and> (\<exists>s'. handle_monitoring accepting_graph [] (state_after accepting_graph [] []) =
            (Inr (PStr ''Monitoring data recorded for step: unknown''), s')
         \<and> bumped ''monitoring_events'' (state_after accepting_graph [] []) s')"
proof -
  let ?s = "state_after accepting_graph [] []"
  note all = empty_payload_defaults_and_one_count [of ?s accepting_graph "[]" "[]", OF refl]
  have w0: "world ?s = []" by (simp add: state_after_def init_integration_def)
  have mem: "\<exists>s'. handle_memory_output accepting_graph [] ?s =
            (Inr (PStr ''Memory content ingested into semantic graph: 0 chars''), s')
         \<and> bumped ''memory_writes'' ?s s'"
    using all w0 by (simp add: accepting_graph_def) blast
  have tool: "\<exists>s'. handle_tool_usage accepting_graph [] ?s =
            (Inr (PStr ''Tool usage logged:  -> semantic graph''), s')
         \<and> bumped ''tool_usage_logs'' ?s s'"
    using all w0 by (simp add: accepting_graph_def) blast
  have find: "\<exists>s'. handle_finding accepting_graph [] ?s =
            (Inr (PStr ''Research finding captured: 0 chars''), s')
         \<and> bumped ''findings_captured'' ?s s'"
    using all w0 by (simp add: accepting_graph_def) blast
  have retr: "\<exists>s'. handle_retrieval accepting_graph [] ?s =
            (Inr (PDict [(''results'', PList [PStr ''node-1'', PStr ''node-2''])]), s')
         \<and> bumped ''retrieval_calls'' ?s s'"
    using all w0 by (simp add: accepting_graph_def dict_get_def) blast
  have plan: "\<exists>s'. handle_planning accepting_graph [] ?s =
            (Inr (PDict [(''plan_steps'', PList [PStr ''step-1''])]), s')
         \<and> bumped ''plan_generations'' ?s s'"
    using all w0 by (simp add: accepting_graph_def dict_get_def) blast
  have pref: "\<exists>s'. handle_preference accepting_graph [] ?s =
            (Inr (PStr ''User preference recorded: pref-1''), s')
         \<and> bumped ''preference_logs'' ?s s'"
    using all w0 by (simp add: accepting_graph_def py_str_def) blast
  have moni: "\<exists>s'. handle_monitoring accepting_graph [] ?s =
            (Inr (PStr ''Monitoring data recorded for step: unknown''), s')
         \<and> bumped ''monitoring_events'' ?s s'"
    using all w0 by (simp add: accepting_graph_def) blast
  from mem tool find retr plan pref moni show ?thesis by blast
qed

text \<open>
  C8 as stated fails: success of the retrieval call alone is not enough.  With a graph that
  answers the retrieval but cannot ingest the log event, \<^verbatim>\<open>_handle_retrieval\<close> returns the
  error dictionary instead of the retrieval result and counts nothing.
\<close>

theorem retrieval_not_passed_through_when_log_fails:
  "fst (enhanced_retrieval read_only_graph (PStr []) PNone (PStr ''hybrid'') (PInt 10) PNone
          (world (init_integration [])))
     = Inr (PDict [(''results'', PList [PStr ''node-1'', PStr ''node-2''])])
   \<and> fst (handle_retrieval read_only_graph [] (init_integration []))
     = Inr (PDict [(''error'', PStr ''graph backend unavailable''), (''results'', PList [])])
   \<and> map_of (integration_stats (snd (handle_retrieval read_only_graph [] (init_integration []))))
       ''retrieval_calls'' = Some 0"
  by (simp add: eval_defs accepting_graph_def read_only_graph_def)

text \<open>
  C8, amended.  On any state reached from a fresh instance and for every retrieval payload:
  when the enhanced-retrieval call succeeds with a mapping whose \<^verbatim>\<open>results\<close> entry has a
  length, and the secondary log-ingest of query, strategy, results count and timestamp
  at priority 1 succeeds as well, \<^verbatim>\<open>_handle_retrieval\<close> returns the retrieval result itself,
  the world is the one the log-ingest left, and \<^verbatim>\<open>retrieval_calls\<close> goes up by one while the
  other counters stay.
\<close>

theorem retrieval_passes_result_through:
  assumes "s = state_after sg w cs"
    and "enhanced_retrieval sg (dict_get payload ''query'' (PStr []))
           (dict_get payload ''query_embedding'' PNone) (dict_get payload ''strategy'' (PStr ''hybrid''))
           (dict_get payload ''top_k'' (PInt 10)) (dict_get payload ''node_types'' PNone) (world s)
         = (Inr results, w1)"
    and "py_get results ''results'' (PList []) = Inr found"
    and "py_len found = Inr n"
    and "ingest_event sg RETRIEVAL_LOGS
           [(''query'', dict_get payload ''query'' (PStr [])),
            (''strategy'', dict_get payload ''strategy'' (PStr ''hybrid'')),
            (''results_count'', PInt (int n)),
            (''timestamp'', PStr (now_isoformat sg w1))] 1 w1 = (Inr (), w2)"
  shows "\<exists>s'. handle_retrieval sg payload s = (Inr results, s')
            \<and> world s' = w2 \<and> bumped ''retrieval_calls'' s s'"
proof -
  from counter_present [of "''retrieval_calls''" sg w cs] assms(1)
  obtain c where c: "map_of (integration_stats s) ''retrieval_calls'' = Some c" by auto
  from retrieval_success [OF c assms(2-5)] bumped_dict_set [OF c] show ?thesis by simp
qed

theorem retrieval_passes_result_through_witness:
  "\<exists>s'. handle_retrieval accepting_graph [(''query'', PStr ''graphs''), (''top_k'', PInt 2)]
            (state_after accepting_graph [] [CallHook HandleMemoryOutput []])
          = (Inr (PDict [(''results'', PList [PStr ''node-1'', PStr ''node-2''])]), s')
        \<and> world s' = [''ingest_event'', ''enhanced_retrieval'', ''ingest_event'']
        \<and> bumped ''retrieval_calls'' (state_after accepting_graph [] [CallHook HandleMemoryOutput []]) s'"
proof -
  let ?s = "state_after accepting_graph [] [CallHook HandleMemoryOutput []]"
  let ?p = "[(''query'', PStr ''graphs''), (''top_k'', PInt 2)]"
  let ?res = "PDict [(''results'', PList [PStr ''node-1'', PStr ''node-2''])]"
  have w0: "world ?s = [''ingest_event'']"
    by (simp add: eval_defs accepting_graph_def)
  have 1: "enhanced_retrieval accepting_graph (dict_get ?p ''query'' (PStr []))
           (dict_get ?p ''query_embedding'' PNone) (dict_get ?p ''strategy'' (PStr ''hybrid''))
           (dict_get ?p ''top_k'' (PInt 10)) (dict_get ?p ''node_types'' PNone) (world ?s)
         = (Inr ?res, [''ingest_event'', ''enhanced_retrieval''])"
    unfolding w0 by (simp add: accepting_graph_def)
  have 2: "py_get ?res ''results'' (PList []) = Inr (PList [PStr ''node-1'', PStr ''node-2''])"
    by (simp add: dict_get_def)
  have 3: "py_len (PList [PStr ''node-1'', PStr ''node-2'']) = Inr 2" by simp
  have 4: "ingest_event accepting_graph RETRIEVAL_LOGS
           [(''query'', dict_get ?p ''query'' (PStr [])),
            (''strategy'', dict_get ?p ''strategy'' (PStr ''hybrid'')),
            (''results_count'', PInt (int 2)),
            (''timestamp'', PStr (now_isoformat accepting_graph [''ingest_event'', ''enhanced_retrieval'']))]
           1 [''ingest_event'', ''enhanced_retrieval'']
         = (Inr (), [''ingest_event'', ''enhanced_retrieval'', ''ingest_event''])"
    by (simp add: accepting_graph_def)
  from retrieval_passes_result_through [OF refl 1 2 3 4] show ?thesis .
qed

section \<open>The wrapped host methods\<close>

lemma handle_tool_usage_returns: "\<exists>v s'. handle_tool_usage sg d s = (Inr v, s')"
  using returns_handle_tool_usage [of sg d] by (simp add: returns_def) (metis prod.collapse)

lemma handle_memory_output_returns: "\<exists>v s'. handle_memory_output sg d s = (Inr v, s')"
  using returns_handle_memory_output [of sg d] by (simp add: returns_def) (metis prod.collapse)

lemma handle_finding_returns: "\<exists>v s'. handle_finding sg d s = (Inr v, s')"
  using returns_handle_finding [of sg d] by (simp add: returns_def) (metis prod.collapse)

lemma bumped_count:
  assumes "bumped k s s'" and "map_of (integration_stats s) k = Some c"
  shows "map_of (integration_stats s') k = Some (c + 1)"
  using assms by (auto simp: bumped_def)

lemma handle_tool_usage_counts:
  assumes "accepts sg" and c: "map_of (integration_stats s) ''tool_usage_logs'' = Some c"
  shows "bumped ''tool_usage_logs'' s (snd (handle_tool_usage sg d s))"
proof -
  obtain data where eq: "handle_tool_usage sg d s =
      py_try (py_bind (in_world (ingest_event sg TOOL_USAGE data 1)) (\<lambda>_.
              py_bind (incr_stat ''tool_usage_logs'') (\<lambda>_.
              py_return (PStr (''Tool usage logged: '' @ py_str sg (dict_get d ''tool_name'' (PStr [])) @ '' -> semantic graph'')))))
       (\<lambda>e. py_bind (log_msg ''ERROR'' (''Tool usage integration failed: '' @ exn_text e)) (\<lambda>_.
             py_return (PStr (''Tool usage integration error: '' @ exn_text e)))) s"
    by (simp add: handle_tool_usage_def Let_def py_try_def)
  from assms(1) obtain w' where "ingest_event sg TOOL_USAGE data 1 (world s) = (Inr (), w')"
    unfolding accepts_def by blast
  with c have "integration_stats (snd (handle_tool_usage sg d s))
      = dict_set (integration_stats s) ''tool_usage_logs'' (c + 1)"
    unfolding eq by (simp add: py_try_def py_bind_def in_world_def incr_stat_def)
  with c show ?thesis by (rule bumped_dict_set)
qed

lemma enhanced_invoke_original_raises:
  assumes "original x s = (Inl e, s1)"
  shows "enhanced_invoke sg original x s =
     (Inl (Exn ''Exception'' (exn_text e)),
      snd (handle_tool_usage sg
             [(''tool_name'', dict_get x ''tool'' (PStr ''unknown'')),
              (''tool_input'', PStr (py_str sg (dict_get x ''tool_input'' (PStr [])))),
              (''tool_output'', PStr (''Tool execution failed: '' @ exn_text e)),
              (''execution_time'', PFloat (now_seconds sg (world s1) - now_seconds sg (world s))),
              (''success'', PBool False),
              (''error'', PStr (exn_text e))] s1))"
proof -
  let ?d = "[(''tool_name'', dict_get x ''tool'' (PStr ''unknown'')),
              (''tool_input'', PStr (py_str sg (dict_get x ''tool_input'' (PStr [])))),
              (''tool_output'', PStr (''Tool execution failed: '' @ exn_text e)),
              (''execution_time'', PFloat (now_seconds sg (world s1) - now_seconds sg (world s))),
              (''success'', PBool False),
              (''error'', PStr (exn_text e))]"
  obtain v s2 where h: "handle_tool_usage sg ?d s1 = (Inr v, s2)"
    using handle_tool_usage_returns by blast
  from assms h show ?thesis
    by (simp add: enhanced_invoke_def py_bind_def py_try_def read_world_def Let_def py_str_def)
qed

lemma enhanced_invoke_original_returns:
  assumes "original x s = (Inr result, s1)"
  shows "enhanced_invoke sg original x s =
     (Inr result,
      snd (handle_tool_usage sg
             [(''tool_name'', dict_get x ''tool'' (PStr ''unknown'')),
              (''tool_input'', PStr (py_str sg (dict_get x ''tool_input'' (PStr [])))),
              (''tool_output'', PStr (py_str sg result)),
              (''execution_time'', PFloat (now_seconds sg (world s1) - now_seconds sg (world s))),
              (''success'', PBool True),
              (''error'', PNone)] s1))"
proof -
  let ?d = "[(''tool_name'', dict_get x ''tool'' (PStr ''unknown'')),
              (''tool_input'', PStr (py_str sg (dict_get x ''tool_input'' (PStr [])))),
              (''tool_output'', PStr (py_str sg result)),
              (''execution_time'', PFloat (now_seconds sg (world s1) - now_seconds sg (world s))),
              (''success'', PBool True),
              (''error'', PNone)]"
  obtain v s2 where h: "handle_tool_usage sg ?d s1 = (Inr v, s2)"
    using handle_tool_usage_returns by blast
  from assms h show ?thesis
    by (simp add: enhanced_invoke_def py_bind_def py_try_def read_world_def Let_def)
qed

text \<open>
  C3 as stated fails: the wrapper does not let the original exception through.  A tool
  that raises \<^verbatim>\<open>ValueError('bad input')\<close> makes the wrapped \<^verbatim>\<open>invoke\<close> raise a plain
  \<^verbatim>\<open>Exception('bad input')\<close>.
\<close>

theorem tool_wrapper_changes_exception_class:
  "fst (invoke rejecting_tool [] (init_integration [])) = Inl (Exn ''ValueError'' ''bad input'')
   \<and> fst (enhanced_invoke accepting_graph (invoke rejecting_tool) [] (init_integration []))
       = Inl (Exn ''Exception'' ''bad input'')
   \<and> fst (enhanced_invoke accepting_graph (invoke rejecting_tool) [] (init_integration []))
       \<noteq> fst (invoke rejecting_tool [] (init_integration []))"
proof -
  have raises: "invoke rejecting_tool [] (init_integration [])
      = (Inl (Exn ''ValueError'' ''bad input''), init_integration [])"
    by (simp add: rejecting_tool_def)
  from enhanced_invoke_original_raises
         [where original = "invoke rejecting_tool" and x = "[]" and s = "init_integration []"
            and e = "Exn ''ValueError'' ''bad input''" and ?s1.0 = "init_integration []"
            and sg = accepting_graph]
       raises
  show ?thesis by simp
qed

text \<open>
  C3, amended.  Whenever the original \<^verbatim>\<open>invoke\<close> raises an exception \<open>e\<close>, the wrapper first
  runs the tool-usage normalizer, on the state the original left, with \<^verbatim>\<open>success\<close> false,
  the error text \<^verbatim>\<open>str(e)\<close> and the output \<^verbatim>\<open>Tool execution failed: \<close>\<^verbatim>\<open>str(e)\<close> (so with a graph
  that accepts events the tool-usage counter goes up by one although the tool failed), and
  then raises a new exception of class \<^verbatim>\<open>Exception\<close> that carries the text of \<open>e\<close>; the class
  of \<open>e\<close> is not kept.
\<close>

theorem tool_failure_recorded_then_reraised_as_exception:
  assumes "original tool_input s = (Inl e, s1)"
  shows "enhanced_invoke sg original tool_input s =
     (Inl (Exn ''Exception'' (exn_text e)),
      snd (handle_tool_usage sg
             [(''tool_name'', dict_get tool_input ''tool'' (PStr ''unknown'')),
              (''tool_input'', PStr (py_str sg (dict_get tool_input ''tool_input'' (PStr [])))),
              (''tool_output'', PStr (''Tool execution failed: '' @ exn_text e)),
              (''execution_time'', PFloat (now_seconds sg (world s1) - now_seconds sg (world s))),
              (''success'', PBool False),
              (''error'', PStr (exn_text e))] s1))
     \<and> (accepts sg \<and> map_of (integration_stats s1) ''tool_usage_logs'' = Some c \<longrightarrow>
          map_of (integration_stats (snd (enhanced_invoke sg original tool_input s)))
            ''tool_usage_logs'' = Some (c + 1))"
proof
  let ?d = "[(''tool_name'', dict_get tool_input ''tool'' (PStr ''unknown'')),
             (''tool_input'', PStr (py_str sg (dict_get tool_input ''tool_input'' (PStr [])))),
             (''tool_output'', PStr (''Tool execution failed: '' @ exn_text e)),
             (''execution_time'', PFloat (now_seconds sg (world s1) - now_seconds sg (world s))),
             (''success'', PBool False),
             (''error'', PStr (exn_text e))]"
  show run: "enhanced_invoke sg original tool_input s =
      (Inl (Exn ''Exception'' (exn_text e)), snd (handle_tool_usage sg ?d s1))"
    using enhanced_invoke_original_raises [of original tool_input s e s1 sg] assms by simp
  show "accepts sg \<and> map_of (integration_stats s1) ''tool_usage_logs'' = Some c \<longrightarrow>
          map_of (integration_stats (snd (enhanced_invoke sg original tool_input s)))
            ''tool_usage_logs'' = Some (c + 1)"
  proof
    assume "accepts sg \<and> map_of (integration_stats s1) ''tool_usage_logs'' = Some c"
    then have acc: "accepts sg" and c: "map_of (integration_stats s1) ''tool_usage_logs'' = Some c"
      by simp_all
    have "bumped ''tool_usage_logs'' s1 (snd (handle_tool_usage sg ?d s1))"
      using acc c by (rule handle_tool_usage_counts)
    then have "map_of (integration_stats (snd (handle_tool_usage sg ?d s1))) ''tool_usage_logs'' = Some (c + 1)"
      using c by (rule bumped_count)
    with run show "map_of (integration_stats (snd (enhanced_invoke sg original tool_input s)))
            ''tool_usage_logs'' = Some (c + 1)"
      by simp
  qed
qed

theorem tool_failure_recorded_then_reraised_as_exception_witness:
  "fst (enhanced_invoke accepting_graph (invoke rejecting_tool) [(''tool'', PStr ''search'')] (init_integration []))
     = Inl (Exn ''Exception'' ''bad input'')
   \<and> map_of (integration_stats
        (snd (enhanced_invoke accepting_graph (invoke rejecting_tool) [(''tool'', PStr ''search'')]
                (init_integration [])))) ''tool_usage_logs'' = Some 1
   \<and> world (snd (enhanced_invoke accepting_graph (invoke rejecting_tool) [(''tool'', PStr ''search'')]
                (init_integration []))) = [''ingest_event'']"
proof -
  let ?s = "init_integration ([] :: string list)"
  let ?x = "[(''tool'', PStr ''search'')]"
  have raises: "invoke rejecting_tool ?x ?s = (Inl (Exn ''ValueError'' ''bad input''), ?s)"
    by (simp add: rejecting_tool_def)
  have acc: "accepts accepting_graph"
    by (simp add: accepts_def accepting_graph_def)
  have c0: "map_of (integration_stats ?s) ''tool_usage_logs'' = Some 0"
    by (simp add: init_integration_def)
  note recorded = tool_failure_recorded_then_reraised_as_exception
         [where original = "invoke rejecting_tool" and tool_input = ?x and s = ?s
            and e = "Exn ''ValueError'' ''bad input''" and ?s1.0 = ?s and sg = accepting_graph
            and c = 0, OF raises]
  from recorded [THEN conjunct1]
  have run: "enhanced_invoke accepting_graph (invoke rejecting_tool) ?x ?s
      = (Inl (Exn ''Exception'' ''bad input''),
         snd (handle_tool_usage accepting_graph
             [(''tool_name'', PStr ''search''),
              (''tool_input'', PStr []),
              (''tool_output'', PStr ''Tool execution failed: bad input''),
              (''execution_time'', PFloat 0),
              (''success'', PBool False),
              (''error'', PStr ''bad input'')] ?s))"
    by (simp add: dict_get_def py_str_def)
  from recorded [THEN conjunct2] acc c0
  have counted: "map_of (integration_stats (snd (enhanced_invoke accepting_graph (invoke rejecting_tool) ?x ?s)))
      ''tool_usage_logs'' = Some 1"
    by simp
  have "world (snd (enhanced_invoke accepting_graph (invoke rejecting_tool) ?x ?s)) = [''ingest_event'']"
    unfolding run by (simp add: eval_defs accepting_graph_def)
  with run counted show ?thesis by simp
qed

subsection \<open>The silent hooks\<close>

lemma enhanced_save_finding_original_raises:
  assumes "original content (Some (case importance_arg of None \<Rightarrow> PFloat 0.5 | Some v \<Rightarrow> v)) kwargs s
             = (Inl e, s1)"
  shows "enhanced_save_finding sg memory_manager original content importance_arg kwargs s = (Inl e, s1)"
  using assms by (simp add: enhanced_save_finding_def Let_def py_bind_def)

lemma enhanced_save_finding_original_returns:
  assumes "original content (Some (case importance_arg of None \<Rightarrow> PFloat 0.5 | Some v \<Rightarrow> v)) kwargs s
             = (Inr result, s1)"
  shows "enhanced_save_finding sg memory_manager original content importance_arg kwargs s =
     (Inr result,
      snd (handle_memory_output sg
             (dict_merge
                [(''content'', content),
                 (''importance'', (case importance_arg of None \<Rightarrow> PFloat 0.5 | Some v \<Rightarrow> v)),
                 (''memory_type'', PStr ''research_finding''),
                 (''session_id'', (case current_episode_id memory_manager (world s1) of
                                    None \<Rightarrow> PStr ''default'' | Some v \<Rightarrow> v))]
                kwargs) s1))"
proof -
  let ?d = "dict_merge
                [(''content'', content),
                 (''importance'', (case importance_arg of None \<Rightarrow> PFloat 0.5 | Some v \<Rightarrow> v)),
                 (''memory_type'', PStr ''research_finding''),
                 (''session_id'', (case current_episode_id memory_manager (world s1) of
                                    None \<Rightarrow> PStr ''default'' | Some v \<Rightarrow> v))]
                kwargs"
  obtain v s2 where h: "handle_memory_output sg ?d s1 = (Inr v, s2)"
    using handle_memory_output_returns by blast
  from assms h show ?thesis
    by (simp add: enhanced_save_finding_def Let_def py_bind_def read_world_def)
qed

lemma enhanced_execute_step_original_raises:
  assumes "original state s = (Inl e, s1)"
  shows "enhanced_execute_step sg original state s = (Inl e, s1)"
  using assms by (simp add: enhanced_execute_step_def py_bind_def)

lemma enhanced_execute_step_no_findings:
  assumes "original state s = (Inr result_state, s1)"
    and "map_of result_state ''findings'' = None
         \<or> (\<exists>findings. map_of result_state ''findings'' = Some findings \<and> \<not> py_truthy findings)"
  shows "enhanced_execute_step sg original state s = (Inr result_state, s1)"
  using assms by (auto simp: enhanced_execute_step_def py_bind_def)

lemma enhanced_execute_step_with_finding:
  assumes "original state s = (Inr result_state, s1)"
    and "map_of result_state ''findings'' = Some findings"
    and "py_truthy findings" and "py_last findings = Inr (PDict latest)"
  shows "enhanced_execute_step sg original state s =
     (Inr result_state,
      snd (handle_finding sg
             [(''finding'', dict_get latest ''analysis'' (PStr [])),
              (''step_info'', PDict [(''step_number'', dict_get latest ''step'' (PInt 0)),
                                     (''step_description'', dict_get latest ''step_description'' (PStr []))]),
              (''confidence'', PFloat 0.7),
              (''sources'', dict_get latest ''external_research'' (PList [])),
              (''analysis'', dict_get latest ''analysis'' (PStr []))] s1))"
proof -
  let ?d = "[(''finding'', dict_get latest ''analysis'' (PStr [])),
              (''step_info'', PDict [(''step_number'', dict_get latest ''step'' (PInt 0)),
                                     (''step_description'', dict_get latest ''step_description'' (PStr []))]),
              (''confidence'', PFloat 0.7),
              (''sources'', dict_get latest ''external_research'' (PList [])),
              (''analysis'', dict_get latest ''analysis'' (PStr []))]"
  obtain v s2 where h: "handle_finding sg ?d s1 = (Inr v, s2)"
    using handle_finding_returns by blast
  from assms h show ?thesis
    by (simp add: enhanced_execute_step_def py_bind_def py_pure_def Let_def)
qed

lemma enhanced_capture_output_original_raises:
  assumes "original research_result research_question session_id s = (Inl e, s1)"
  shows "enhanced_capture_output sg original research_result research_question session_id s = (Inl e, s1)"
  using assms by (simp add: enhanced_capture_output_def py_bind_def)

lemma enhanced_capture_output_event_recorded:
  assumes "original research_result research_question session_id s = (Inr result, s1)"
    and "record_context_event sg ''rlhf_capture''
           (''Research output captured for feedback: '' @ py_str sg session_id) 0.5 (world s1) = (Inr (), w2)"
  shows "enhanced_capture_output sg original research_result research_question session_id s
           = (Inr result, s1\<lparr>world := w2\<rparr>)"
  using assms by (simp add: enhanced_capture_output_def py_bind_def in_world_def)

lemma enhanced_capture_output_event_raises:
  assumes "original research_result research_question session_id s = (Inr result, s1)"
    and "record_context_event sg ''rlhf_capture''
           (''Research output captured for feedback: '' @ py_str sg session_id) 0.5 (world s1) = (Inl e, w2)"
  shows "enhanced_capture_output sg original research_result research_question session_id s
           = (Inl e, s1\<lparr>world := w2\<rparr>)"
  using assms by (simp add: enhanced_capture_output_def py_bind_def in_world_def)

text \<open>
  C4.  The first half holds for the three silent hooks: an exception of the original
  method passes through unchanged and no normalizer runs
  (\<open>enhanced_save_finding_original_raises\<close>, \<open>enhanced_execute_step_original_raises\<close>,
  \<open>enhanced_capture_output_original_raises\<close>).  The second half holds for the memory hook
  (\<open>enhanced_save_finding_original_returns\<close>) and fails for the RLHF capture hook: its
  wrapper calls \<^verbatim>\<open>record_context_event\<close> outside any \<^verbatim>\<open>try\<close>, so when the original capture
  succeeds and the graph raises, the caller gets the graph's exception instead of the
  original's return value.  Here the original returns \<^verbatim>\<open>'captured'\<close> and the wrapped call
  raises \<^verbatim>\<open>ConnectionError\<close>.
\<close>

theorem rlhf_capture_wrapper_raises_after_successful_original:
  "fst (capture_research_output plain_collector (PStr ''result'') (PStr ''question'') (PStr ''session-1'')
          (init_integration []))
     = Inr (PStr ''captured'')
   \<and> fst (enhanced_capture_output raising_graph (capture_research_output plain_collector)
            (PStr ''result'') (PStr ''question'') (PStr ''session-1'') (init_integration []))
     = Inl (Exn ''ConnectionError'' ''graph backend unavailable'')"
  by (simp add: plain_collector_def enhanced_capture_output_def py_bind_def in_world_def
        raising_graph_def graph_down_def)

subsection \<open>Wrapping twice\<close>

lemma handle_memory_output_counts:
  assumes "accepts sg" and c: "map_of (integration_stats s) ''memory_writes'' = Some c"
  shows "bumped ''memory_writes'' s (snd (handle_memory_output sg d s))"
proof -
  obtain data where eq: "handle_memory_output sg d s =
      py_try (py_bind (in_world (ingest_event sg MEMORY data 2)) (\<lambda>_.
              py_bind (incr_stat ''memory_writes'') (\<lambda>_.
              py_bind (py_pure (py_len (dict_get d ''content'' (PStr [])))) (\<lambda>n.
              py_return (PStr (''Memory content ingested into semantic graph: '' @ show_nat n @ '' chars''))))))
       (\<lambda>e. py_bind (log_msg ''ERROR'' (''Memory output integration failed: '' @ exn_text e)) (\<lambda>_.
             py_return (PStr (''Memory integration error: '' @ exn_text e)))) s"
    by (simp add: handle_memory_output_def Let_def py_try_def)
  from assms(1) obtain w' where "ingest_event sg MEMORY data 2 (world s) = (Inr (), w')"
    unfolding accepts_def by blast
  with c have "integration_stats (snd (handle_memory_output sg d s))
      = dict_set (integration_stats s) ''memory_writes'' (c + 1)"
    unfolding eq
    by (cases "py_len (dict_get d ''content'' (PStr []))")
       (simp_all add: py_try_def py_bind_def py_pure_def in_world_def incr_stat_def log_msg_def)
  with c show ?thesis by (rule bumped_dict_set)
qed

lemma handle_finding_counts:
  assumes "accepts sg" and c: "map_of (integration_stats s) ''findings_captured'' = Some c"
    and info: "dict_get d ''step_info'' (PDict []) = PDict info"
  shows "bumped ''findings_captured'' s (snd (handle_finding sg d s))"
proof -
  obtain data where eq: "handle_finding sg d s =
      py_try (py_bind (in_world (ingest_event sg RESEARCH_FINDINGS data 2)) (\<lambda>_.
              py_bind (incr_stat ''findings_captured'') (\<lambda>_.
              py_bind (py_pure (py_len (dict_get d ''finding'' (PStr [])))) (\<lambda>n.
              py_return (PStr (''Research finding captured: '' @ show_nat n @ '' chars''))))))
       (\<lambda>e. py_bind (log_msg ''ERROR'' (''Finding capture integration failed: '' @ exn_text e)) (\<lambda>_.
             py_return (PStr (''Finding capture error: '' @ exn_text e)))) s"
    by (simp add: handle_finding_def Let_def py_try_def info)
  from assms(1) obtain w' where "ingest_event sg RESEARCH_FINDINGS data 2 (world s) = (Inr (), w')"
    unfolding accepts_def by blast
  with c have "integration_stats (snd (handle_finding sg d s))
      = dict_set (integration_stats s) ''findings_captured'' (c + 1)"
    unfolding eq
    by (cases "py_len (dict_get d ''finding'' (PStr []))")
       (simp_all add: py_try_def py_bind_def py_pure_def in_world_def incr_stat_def log_msg_def)
  with c show ?thesis by (rule bumped_dict_set)
qed

lemma enhanced_invoke_state:
  "\<exists>d. snd (enhanced_invoke sg original x s) = snd (handle_tool_usage sg d (snd (original x s)))"
proof (cases "original x s")
  case (Pair r s1)
  show ?thesis
  proof (cases r)
    case (Inl e)
    with Pair enhanced_invoke_original_raises [of original x s e s1 sg] show ?thesis by auto
  next
    case (Inr v)
    with Pair enhanced_invoke_original_returns [of original x s v s1 sg] show ?thesis by auto
  qed
qed

lemma enhanced_invoke_counts_once:
  assumes "accepts sg" and "map_of (integration_stats s) ''tool_usage_logs'' = Some c"
    and "integration_stats (snd (original x s)) = integration_stats s"
  shows "map_of (integration_stats (snd (enhanced_invoke sg original x s))) ''tool_usage_logs'' = Some (c + 1)"
proof -
  obtain d where d: "snd (enhanced_invoke sg original x s) = snd (handle_tool_usage sg d (snd (original x s)))"
    using enhanced_invoke_state by blast
  from assms(2,3) have c1: "map_of (integration_stats (snd (original x s))) ''tool_usage_logs'' = Some c"
    by simp
  from bumped_count [OF handle_tool_usage_counts [OF assms(1) c1] c1] d show ?thesis by simp
qed

lemma enhanced_invoke_counts_twice:
  assumes "accepts sg" and "map_of (integration_stats s) ''tool_usage_logs'' = Some c"
    and "integration_stats (snd (original x s)) = integration_stats s"
  shows "map_of (integration_stats (snd (enhanced_invoke sg (enhanced_invoke sg original) x s)))
           ''tool_usage_logs'' = Some (c + 2)"
proof -
  let ?inner = "enhanced_invoke sg original"
  obtain d where d: "snd (enhanced_invoke sg ?inner x s) = snd (handle_tool_usage sg d (snd (?inner x s)))"
    using enhanced_invoke_state by blast
  have c1: "map_of (integration_stats (snd (?inner x s))) ''tool_usage_logs'' = Some (c + 1)"
    using assms by (rule enhanced_invoke_counts_once)
  from bumped_count [OF handle_tool_usage_counts [OF assms(1) c1] c1] d show ?thesis by simp
qed

lemma enhanced_invoke_twice_same_outcome:
  "fst (enhanced_invoke sg (enhanced_invoke sg original) x s) = fst (enhanced_invoke sg original x s)"
proof (cases "original x s")
  case (Pair r s1)
  show ?thesis
  proof (cases r)
    case (Inl e)
    with Pair have inner: "enhanced_invoke sg original x s =
        (Inl (Exn ''Exception'' (exn_text e)), snd (enhanced_invoke sg original x s))"
      using enhanced_invoke_original_raises [of original x s e s1 sg] by simp
    from enhanced_invoke_original_raises
           [of "enhanced_invoke sg original" x s "Exn ''Exception'' (exn_text e)"
               "snd (enhanced_invoke sg original x s)" sg] inner
    have "fst (enhanced_invoke sg (enhanced_invoke sg original) x s) = Inl (Exn ''Exception'' (exn_text e))"
      by simp
    with inner show ?thesis by (metis fst_conv)
  next
    case (Inr v)
    with Pair have inner: "enhanced_invoke sg original x s = (Inr v, snd (enhanced_invoke sg original x s))"
      using enhanced_invoke_original_returns [of original x s v s1 sg] by simp
    from enhanced_invoke_original_returns
           [of "enhanced_invoke sg original" x s v "snd (enhanced_invoke sg original x s)" sg] inner
    have "fst (enhanced_invoke sg (enhanced_invoke sg original) x s) = Inr v"
      by simp
    with inner show ?thesis by (metis fst_conv)
  qed
qed

lemma enhanced_save_finding_state:
  assumes "original content (Some (case importance_arg of None \<Rightarrow> PFloat 0.5 | Some v \<Rightarrow> v)) kwargs s
             = (Inr result, s1)"
  shows "\<exists>d. enhanced_save_finding sg memory_manager original content importance_arg kwargs s
           = (Inr result, snd (handle_memory_output sg d s1))"
  using enhanced_save_finding_original_returns
          [of original content importance_arg kwargs s result s1 sg memory_manager] assms
  by blast

lemma enhanced_save_finding_counts_once:
  assumes "accepts sg" and "map_of (integration_stats s) ''memory_writes'' = Some c"
    and "original content (Some (case importance_arg of None \<Rightarrow> PFloat 0.5 | Some v \<Rightarrow> v)) kwargs s
             = (Inr result, s1)"
    and "integration_stats s1 = integration_stats s"
  shows "enhanced_save_finding sg memory_manager original content importance_arg kwargs s
           = (Inr result, snd (enhanced_save_finding sg memory_manager original content importance_arg kwargs s))
       \<and> map_of (integration_stats
            (snd (enhanced_save_finding sg memory_manager original content importance_arg kwargs s)))
            ''memory_writes'' = Some (c + 1)"
proof -
  obtain d where d: "enhanced_save_finding sg memory_manager original content importance_arg kwargs s
           = (Inr result, snd (handle_memory_output sg d s1))"
    using enhanced_save_finding_state
            [of original content importance_arg kwargs s result s1 sg memory_manager] assms(3)
    by blast
  from assms(2,4) have c1: "map_of (integration_stats s1) ''memory_writes'' = Some c" by simp
  from bumped_count [OF handle_memory_output_counts [OF assms(1) c1] c1] d show ?thesis by simp
qed

lemma enhanced_save_finding_counts_twice:
  assumes "accepts sg" and "map_of (integration_stats s) ''memory_writes'' = Some c"
    and "original content (Some (case importance_arg of None \<Rightarrow> PFloat 0.5 | Some v \<Rightarrow> v)) kwargs s
             = (Inr result, s1)"
    and "integration_stats s1 = integration_stats s"
  shows "map_of (integration_stats
            (snd (enhanced_save_finding sg manager'
                    (enhanced_save_finding sg memory_manager original) content importance_arg kwargs s)))
            ''memory_writes'' = Some (c + 2)"
proof -
  let ?imp = "case importance_arg of None \<Rightarrow> PFloat 0.5 | Some v \<Rightarrow> v"
  let ?inner = "enhanced_save_finding sg memory_manager original"
  have same_arg: "(case Some ?imp of None \<Rightarrow> PFloat 0.5 | Some v \<Rightarrow> v) = ?imp" by simp
  from enhanced_save_finding_counts_once
         [where sg = sg and s = s and c = c and original = original and content = content
            and importance_arg = "Some ?imp" and kwargs = kwargs and result = result
            and ?s1.0 = s1 and memory_manager = memory_manager]
    assms
  have inner: "?inner content (Some ?imp) kwargs s = (Inr result, snd (?inner content (Some ?imp) kwargs s))"
    and c1: "map_of (integration_stats (snd (?inner content (Some ?imp) kwargs s))) ''memory_writes'' = Some (c + 1)"
    by simp_all
  obtain d where d: "enhanced_save_finding sg manager' ?inner content importance_arg kwargs s
           = (Inr result, snd (handle_memory_output sg d (snd (?inner content (Some ?imp) kwargs s))))"
    using enhanced_save_finding_state
            [where original = ?inner and content = content and importance_arg = importance_arg
               and kwargs = kwargs and s = s and result = result
               and ?s1.0 = "snd (?inner content (Some ?imp) kwargs s)" and sg = sg
               and memory_manager = manager'] inner
    by blast
  from bumped_count [OF handle_memory_output_counts [OF assms(1) c1] c1] d show ?thesis by simp
qed

lemma enhanced_save_finding_twice_same_outcome:
  "fst (enhanced_save_finding sg manager' (enhanced_save_finding sg memory_manager original)
          content importance_arg kwargs s)
   = fst (enhanced_save_finding sg memory_manager original content importance_arg kwargs s)"
proof -
  let ?imp = "case importance_arg of None \<Rightarrow> PFloat 0.5 | Some v \<Rightarrow> v"
  let ?inner = "enhanced_save_finding sg memory_manager original"
  obtain r s1 where o: "original content (Some ?imp) kwargs s = (r, s1)"
    by (cases "original content (Some ?imp) kwargs s")
  show ?thesis
  proof (cases r)
    case (Inl e)
    with o have a: "?inner content importance_arg kwargs s = (Inl e, s1)"
      by (simp add: enhanced_save_finding_original_raises)
    from o Inl have b: "?inner content (Some ?imp) kwargs s = (Inl e, s1)"
      by (simp add: enhanced_save_finding_original_raises)
    from b have "enhanced_save_finding sg manager' ?inner content importance_arg kwargs s = (Inl e, s1)"
      using enhanced_save_finding_original_raises
              [where original = ?inner and content = content and importance_arg = importance_arg
                 and kwargs = kwargs and s = s and e = e and ?s1.0 = s1 and sg = sg
                 and memory_manager = manager']
      by simp
    with a show ?thesis by simp
  next
    case (Inr v)
    with o have a: "fst (?inner content importance_arg kwargs s) = Inr v"
      by (simp add: enhanced_save_finding_original_returns)
    from o Inr have b: "?inner content (Some ?imp) kwargs s = (Inr v, snd (?inner content (Some ?imp) kwargs s))"
      by (simp add: enhanced_save_finding_original_returns)
    from b have "fst (enhanced_save_finding sg manager' ?inner content importance_arg kwargs s) = Inr v"
      using enhanced_save_finding_original_returns
              [where original = ?inner and content = content and importance_arg = importance_arg
                 and kwargs = kwargs and s = s and result = v
                 and ?s1.0 = "snd (?inner content (Some ?imp) kwargs s)" and sg = sg
                 and memory_manager = manager']
      by simp
    with a show ?thesis by simp
  qed
qed

lemma enhanced_execute_step_bad_finding:
  assumes "original state s = (Inr result_state, s1)"
    and "map_of result_state ''findings'' = Some findings" and "py_truthy findings"
    and "py_last findings = Inl e \<or> (\<exists>latest. py_last findings = Inr latest \<and> py_get latest ''analysis'' (PStr []) = Inl e)"
  shows "enhanced_execute_step sg original state s = (Inl e, s1)"
  using assms by (auto simp: enhanced_execute_step_def py_bind_def py_pure_def)

lemma py_get_cases:
  "(\<exists>d. v = PDict d) \<or> (\<exists>e. \<forall>k dflt. py_get v k dflt = Inl e)"
  by (cases v) auto

lemma enhanced_execute_step_outcome:
  "\<exists>r. (r = Inr result_state \<or> (\<exists>e. r = Inl e))
     \<and> (\<forall>original s s1. original state s = (Inr result_state, s1) \<longrightarrow>
           fst (enhanced_execute_step sg original state s) = r)"
proof (cases "map_of result_state ''findings''")
  case None
  then show ?thesis by (intro exI [of _ "Inr result_state"]) (simp add: enhanced_execute_step_no_findings)
next
  case (Some findings)
  show ?thesis
  proof (cases "py_truthy findings")
    case False
    with Some show ?thesis
      by (intro exI [of _ "Inr result_state"]) (simp add: enhanced_execute_step_no_findings)
  next
    case True
    show ?thesis
    proof (cases "py_last findings")
      case (Inl e)
      with Some True show ?thesis
        by (intro exI [of _ "Inl e"]) (simp add: enhanced_execute_step_bad_finding)
    next
      case (Inr latest)
      from py_get_cases [of latest] show ?thesis
      proof
        assume "\<exists>d. latest = PDict d"
        then obtain d where "latest = PDict d" ..
        with Some True Inr show ?thesis
          by (intro exI [of _ "Inr result_state"]) (simp add: enhanced_execute_step_with_finding)
      next
        assume "\<exists>e. \<forall>k dflt. py_get latest k dflt = Inl e"
        then obtain e where "\<forall>k dflt. py_get latest k dflt = Inl e" ..
        with Some True Inr show ?thesis
          by (intro exI [of _ "Inl e"]) (simp add: enhanced_execute_step_bad_finding)
      qed
    qed
  qed
qed

lemma enhanced_execute_step_twice_same_outcome:
  "fst (enhanced_execute_step sg (enhanced_execute_step sg original) state s)
   = fst (enhanced_execute_step sg original state s)"
proof (cases "original state s")
  case (Pair r s1)
  show ?thesis
  proof (cases r)
    case (Inl e)
    with Pair have inner: "enhanced_execute_step sg original state s = (Inl e, s1)"
      by (simp add: enhanced_execute_step_original_raises)
    then have "enhanced_execute_step sg (enhanced_execute_step sg original) state s = (Inl e, s1)"
      using enhanced_execute_step_original_raises
              [where original = "enhanced_execute_step sg original" and state = state and s = s
                 and e = e and ?s1.0 = s1 and sg = sg]
      by simp
    with inner show ?thesis by simp
  next
    case (Inr rs)
    from enhanced_execute_step_outcome [of rs state sg] obtain r' where
      shape: "r' = Inr rs \<or> (\<exists>e. r' = Inl e)"
      and det: "\<And>orig t t1. orig state t = (Inr rs, t1) \<Longrightarrow> fst (enhanced_execute_step sg orig state t) = r'"
      by blast
    from det [of original s s1] Pair Inr have inner: "fst (enhanced_execute_step sg original state s) = r'"
      by simp
    from shape show ?thesis
    proof
      assume "r' = Inr rs"
      with inner have "enhanced_execute_step sg original state s
          = (Inr rs, snd (enhanced_execute_step sg original state s))"
        by (metis prod.collapse)
      from det [of "enhanced_execute_step sg original" s "snd (enhanced_execute_step sg original state s)"]
        this inner
      show ?thesis by simp
    next
      assume "\<exists>e. r' = Inl e"
      then obtain e where "r' = Inl e" ..
      with inner have "enhanced_execute_step sg original state s
          = (Inl e, snd (enhanced_execute_step sg original state s))"
        by (metis prod.collapse)
      then have "fst (enhanced_execute_step sg (enhanced_execute_step sg original) state s) = Inl e"
        using enhanced_execute_step_original_raises
                [where original = "enhanced_execute_step sg original" and state = state and s = s
                   and e = e and ?s1.0 = "snd (enhanced_execute_step sg original state s)" and sg = sg]
        by (metis fst_conv)
      with inner \<open>r' = Inl e\<close> show ?thesis by simp
    qed
  qed
qed

lemma enhanced_execute_step_counts:
  assumes "accepts sg" and "original state s = (Inr result_state, s1)"
    and "map_of (integration_stats s1) ''findings_captured'' = Some c"
    and "map_of result_state ''findings'' = Some findings"
    and "py_truthy findings" and "py_last findings = Inr (PDict latest)"
  shows "enhanced_execute_step sg original state s
           = (Inr result_state, snd (enhanced_execute_step sg original state s))
       \<and> map_of (integration_stats (snd (enhanced_execute_step sg original state s)))
            ''findings_captured'' = Some (c + 1)"
proof -
  let ?d = "[(''finding'', dict_get latest ''analysis'' (PStr [])),
              (''step_info'', PDict [(''step_number'', dict_get latest ''step'' (PInt 0)),
                                     (''step_description'', dict_get latest ''step_description'' (PStr []))]),
              (''confidence'', PFloat 0.7),
              (''sources'', dict_get latest ''external_research'' (PList [])),
              (''analysis'', dict_get latest ''analysis'' (PStr []))]"
  have eq: "enhanced_execute_step sg original state s = (Inr result_state, snd (handle_finding sg ?d s1))"
    using enhanced_execute_step_with_finding
            [where original = original and state = state and s = s and result_state = result_state
               and ?s1.0 = s1 and findings = findings and latest = latest and sg = sg]
          assms(2,4,5,6)
    by simp
  have info: "dict_get ?d ''step_info'' (PDict []) =
      PDict [(''step_number'', dict_get latest ''step'' (PInt 0)),
             (''step_description'', dict_get latest ''step_description'' (PStr []))]"
    by (simp add: dict_get_def)
  from bumped_count [OF handle_finding_counts [OF assms(1,3) info] assms(3)] eq show ?thesis by simp
qed

lemma enhanced_execute_step_counts_twice:
  assumes "accepts sg" and "original state s = (Inr result_state, s1)"
    and "map_of (integration_stats s1) ''findings_captured'' = Some c"
    and "map_of result_state ''findings'' = Some findings"
    and "py_truthy findings" and "py_last findings = Inr (PDict latest)"
  shows "map_of (integration_stats
            (snd (enhanced_execute_step sg (enhanced_execute_step sg original) state s)))
            ''findings_captured'' = Some (c + 2)"
proof -
  let ?inner = "enhanced_execute_step sg original"
  from enhanced_execute_step_counts
         [where sg = sg and original = original and state = state and s = s
            and result_state = result_state and ?s1.0 = s1 and c = c and findings = findings
            and latest = latest]
       assms
  have inner: "?inner state s = (Inr result_state, snd (?inner state s))"
    and c1: "map_of (integration_stats (snd (?inner state s))) ''findings_captured'' = Some (c + 1)"
    by simp_all
  from enhanced_execute_step_counts
         [where sg = sg and original = ?inner and state = state and s = s
            and result_state = result_state and ?s1.0 = "snd (?inner state s)" and c = "c + 1"
            and findings = findings and latest = latest]
       assms(1) inner c1 assms(4,5,6)
  show ?thesis by simp
qed

text \<open>
  C1 as stated fails: nothing guards a second wrapping.  Applying
  \<^verbatim>\<open>integrate_tool_executor\<close> to the answering tool gives \<open>wrapped_once\<close>, applying it again
  gives \<open>wrapped_twice\<close>, and one call of the twice-wrapped \<^verbatim>\<open>invoke\<close> runs the tool-usage
  normalizer twice: two events reach the graph and the counter reads 2, where a single
  wrapping gives 1.
\<close>

theorem wrapping_twice_fires_normalizer_twice:
  "fst (integrate_tool_executor accepting_graph answering_tool (init_integration [])) = Inr wrapped_once
   \<and> fst (integrate_tool_executor accepting_graph wrapped_once
            (snd (integrate_tool_executor accepting_graph answering_tool (init_integration []))))
       = Inr wrapped_twice
   \<and> map_of (integration_stats (snd (invoke wrapped_once [] (init_integration []))))
        ''tool_usage_logs'' = Some 1
   \<and> map_of (integration_stats (snd (invoke wrapped_twice [] (init_integration []))))
        ''tool_usage_logs'' = Some 2
   \<and> world (snd (invoke wrapped_twice [] (init_integration []))) = [''ingest_event'', ''ingest_event'']"
proof -
  have once: "fst (integrate_tool_executor accepting_graph answering_tool (init_integration [])) = Inr wrapped_once"
    by (simp add: integrate_tool_executor_def wrapped_once_def Let_def)
  have twice: "fst (integrate_tool_executor accepting_graph wrapped_once
            (snd (integrate_tool_executor accepting_graph answering_tool (init_integration []))))
       = Inr wrapped_twice"
    by (simp add: integrate_tool_executor_def wrapped_twice_def Let_def)
  have inner: "invoke wrapped_once [] (init_integration []) =
      (Inr (PStr ''42''),
       (init_integration [])\<lparr>world := [''ingest_event''],
          integration_stats := dict_set (integration_stats (init_integration ([] :: string list))) ''tool_usage_logs'' 1\<rparr>)"
    by (simp add: wrapped_once_def answering_tool_def enhanced_invoke_def eval_defs accepting_graph_def)
  have outer: "invoke wrapped_twice [] (init_integration []) =
      (Inr (PStr ''42''),
       (init_integration [])\<lparr>world := [''ingest_event'', ''ingest_event''],
          integration_stats := dict_set (integration_stats (init_integration ([] :: string list))) ''tool_usage_logs'' 2\<rparr>)"
    using inner
    by (simp add: wrapped_twice_def enhanced_invoke_def eval_defs accepting_graph_def)
  from once twice inner outer show ?thesis
    by (simp add: dict_set_def init_integration_def)
qed

text \<open>
  C1, amended.  Wrapping is not idempotent: \<^verbatim>\<open>integrate_memory_manager\<close>,
  \<^verbatim>\<open>integrate_tool_executor\<close> and \<^verbatim>\<open>integrate_research_loop\<close> carry no guard and keep no binding
  table; each application puts a new wrapper around whatever the host object's method is at
  that time.  After two applications two instrumentation layers are active: with a graph
  that accepts events and an original method that leaves the statistics alone, one call
  raises the counter of the kind by two (by one after a single wrapping), for the tool
  hook on every call, for the memory hook when the original returns, for the research-step
  hook when the original returns a state whose last finding is a mapping.  The value
  returned, or the exception raised, to the caller is the same after two wrappings as after
  one.
\<close>

theorem wrapping_twice_stacks_layers_same_outcome:
  "integrate_tool_executor sg tool_executor s =
     (Inr (tool_executor\<lparr>invoke := enhanced_invoke sg (invoke tool_executor)\<rparr>),
      s\<lparr>logged := logged s @ [(''INFO'', ''Tool executor integrated with semantic graph'')]\<rparr>)
   \<and> integrate_memory_manager sg memory_manager s =
     (Inr (memory_manager\<lparr>save_research_finding :=
             enhanced_save_finding sg memory_manager (save_research_finding memory_manager)\<rparr>),
      s\<lparr>logged := logged s @ [(''INFO'', ''Memory manager integrated with semantic graph'')]\<rparr>)
   \<and> integrate_research_loop sg research_agent s =
     (Inr (research_agent\<lparr>execute_research_step :=
             enhanced_execute_step sg (execute_research_step research_agent)\<rparr>),
      s\<lparr>logged := logged s @ [(''INFO'', ''Research loop integrated with semantic graph'')]\<rparr>)
   \<and> fst (enhanced_invoke sg (enhanced_invoke sg original_invoke) tool_input s)
       = fst (enhanced_invoke sg original_invoke tool_input s)
   \<and> fst (enhanced_save_finding sg manager' (enhanced_save_finding sg memory_manager original_save)
            content importance_arg kwargs s)
       = fst (enhanced_save_finding sg memory_manager original_save content importance_arg kwargs s)
   \<and> fst (enhanced_execute_step sg (enhanced_execute_step sg original_step) state s)
       = fst (enhanced_execute_step sg original_step state s)
   \<and> (accepts sg \<and> map_of (integration_stats s) ''tool_usage_logs'' = Some c
        \<and> integration_stats (snd (original_invoke tool_input s)) = integration_stats s \<longrightarrow>
        map_of (integration_stats (snd (enhanced_invoke sg original_invoke tool_input s)))
          ''tool_usage_logs'' = Some (c + 1)
      \<and> map_of (integration_stats (snd (enhanced_invoke sg (enhanced_invoke sg original_invoke) tool_input s)))
          ''tool_usage_logs'' = Some (c + 2))
   \<and> (accepts sg \<and> map_of (integration_stats s) ''memory_writes'' = Some c
        \<and> original_save content (Some (case importance_arg of None \<Rightarrow> PFloat 0.5 | Some v \<Rightarrow> v)) kwargs s
            = (Inr result, s1)
        \<and> integration_stats s1 = integration_stats s \<longrightarrow>
        map_of (integration_stats
          (snd (enhanced_save_finding sg memory_manager original_save content importance_arg kwargs s)))
          ''memory_writes'' = Some (c + 1)
      \<and> map_of (integration_stats
          (snd (enhanced_save_finding sg manager' (enhanced_save_finding sg memory_manager original_save)
                  content importance_arg kwargs s)))
          ''memory_writes'' = Some (c + 2))
   \<and> (accepts sg \<and> map_of (integration_stats s) ''findings_captured'' = Some c
        \<and> original_step state s = (Inr result_state, s1)
        \<and> integration_stats s1 = integration_stats s
        \<and> map_of result_state ''findings'' = Some findings
        \<and> py_truthy findings \<and> py_last findings = Inr (PDict latest) \<longrightarrow>
        map_of (integration_stats (snd (enhanced_execute_step sg original_step state s)))
          ''findings_captured'' = Some (c + 1)
      \<and> map_of (integration_stats
          (snd (enhanced_execute_step sg (enhanced_execute_step sg original_step) state s)))
          ''findings_captured'' = Some (c + 2))"
proof -
  have a1: "integrate_tool_executor sg tool_executor s =
     (Inr (tool_executor\<lparr>invoke := enhanced_invoke sg (invoke tool_executor)\<rparr>),
      s\<lparr>logged := logged s @ [(''INFO'', ''Tool executor integrated with semantic graph'')]\<rparr>)"
    by (simp add: integrate_tool_executor_def Let_def)
  have a2: "integrate_memory_manager sg memory_manager s =
     (Inr (memory_manager\<lparr>save_research_finding :=
             enhanced_save_finding sg memory_manager (save_research_finding memory_manager)\<rparr>),
      s\<lparr>logged := logged s @ [(''INFO'', ''Memory manager integrated with semantic graph'')]\<rparr>)"
    by (simp add: integrate_memory_manager_def Let_def)
  have a3: "integrate_research_loop sg research_agent s =
     (Inr (research_agent\<lparr>execute_research_step :=
             enhanced_execute_step sg (execute_research_step research_agent)\<rparr>),
      s\<lparr>logged := logged s @ [(''INFO'', ''Research loop integrated with semantic graph'')]\<rparr>)"
    by (simp add: integrate_research_loop_def Let_def)
  note b1 = enhanced_invoke_twice_same_outcome [of sg original_invoke tool_input s]
  note b2 = enhanced_save_finding_twice_same_outcome
              [of sg manager' memory_manager original_save content importance_arg kwargs s]
  note b3 = enhanced_execute_step_twice_same_outcome [of sg original_step state s]
  have c1: "map_of (integration_stats (snd (enhanced_invoke sg original_invoke tool_input s)))
          ''tool_usage_logs'' = Some (c + 1)
      \<and> map_of (integration_stats (snd (enhanced_invoke sg (enhanced_invoke sg original_invoke) tool_input s)))
          ''tool_usage_logs'' = Some (c + 2)"
    if "accepts sg" "map_of (integration_stats s) ''tool_usage_logs'' = Some c"
      "integration_stats (snd (original_invoke tool_input s)) = integration_stats s"
    using that enhanced_invoke_counts_once [of sg s c original_invoke tool_input]
      enhanced_invoke_counts_twice [of sg s c original_invoke tool_input]
    by simp
  have c2: "map_of (integration_stats
          (snd (enhanced_save_finding sg memory_manager original_save content importance_arg kwargs s)))
          ''memory_writes'' = Some (c + 1)
      \<and> map_of (integration_stats
          (snd (enhanced_save_finding sg manager' (enhanced_save_finding sg memory_manager original_save)
                  content importance_arg kwargs s)))
          ''memory_writes'' = Some (c + 2)"
    if "accepts sg" "map_of (integration_stats s) ''memory_writes'' = Some c"
      "original_save content (Some (case importance_arg of None \<Rightarrow> PFloat 0.5 | Some v \<Rightarrow> v)) kwargs s
            = (Inr result, s1)"
      "integration_stats s1 = integration_stats s"
    using that
      enhanced_save_finding_counts_once
        [where sg = sg and s = s and c = c and original = original_save and content = content
           and importance_arg = importance_arg and kwargs = kwargs and result = result
           and ?s1.0 = s1 and memory_manager = memory_manager]
      enhanced_save_finding_counts_twice
        [where sg = sg and s = s and c = c and original = original_save and content = content
           and importance_arg = importance_arg and kwargs = kwargs and result = result
           and ?s1.0 = s1 and memory_manager = memory_manager and manager' = manager']
    by simp
  have c3: "map_of (integration_stats (snd (enhanced_execute_step sg original_step state s)))
          ''findings_captured'' = Some (c + 1)
      \<and> map_of (integration_stats
          (snd (enhanced_execute_step sg (enhanced_execute_step sg original_step) state s)))
          ''findings_captured'' = Some (c + 2)"
    if "accepts sg" "map_of (integration_stats s) ''findings_captured'' = Some c"
      "original_step state s = (Inr result_state, s1)" "integration_stats s1 = integration_stats s"
      "map_of result_state ''findings'' = Some findings"
      "py_truthy findings" "py_last findings = Inr (PDict latest)"
    using that
      enhanced_execute_step_counts
        [where sg = sg and original = original_step and state = state and s = s
           and result_state = result_state and ?s1.0 = s1 and c = c and findings = findings
           and latest = latest]
      enhanced_execute_step_counts_twice
        [where sg = sg and original = original_step and state = state and s = s
           and result_state = result_state and ?s1.0 = s1 and c = c and findings = findings
           and latest = latest]
    by simp
  from a1 a2 a3 b1 b2 b3 c1 c2 c3 show ?thesis by blast
qed

theorem wrapping_twice_stacks_layers_same_outcome_witness:
  "fst (invoke wrapped_twice [] (init_integration [])) = fst (invoke wrapped_once [] (init_integration []))
   \<and> map_of (integration_stats (snd (invoke wrapped_once [] (init_integration []))))
        ''tool_usage_logs'' = Some 1
   \<and> map_of (integration_stats (snd (invoke wrapped_twice [] (init_integration []))))
        ''tool_usage_logs'' = Some 2"
proof -
  let ?s = "init_integration ([] :: string list)"
  let ?once = "enhanced_invoke accepting_graph (invoke answering_tool)"
  let ?twice = "enhanced_invoke accepting_graph ?once"
  have acc: "accepts accepting_graph"
    by (simp add: accepts_def accepting_graph_def)
  have c0: "map_of (integration_stats ?s) ''tool_usage_logs'' = Some 0"
    by (simp add: init_integration_def)
  have quiet_tool: "integration_stats (snd (invoke answering_tool [] ?s)) = integration_stats ?s"
    by (simp add: answering_tool_def)
  note layers = wrapping_twice_stacks_layers_same_outcome
         [where sg = accepting_graph and s = ?s and c = 0
            and original_invoke = "invoke answering_tool" and tool_input = "[]"]
  have same: "fst (?twice [] ?s) = fst (?once [] ?s)"
    by (rule layers [THEN conjunct2, THEN conjunct2, THEN conjunct2, THEN conjunct1])
  have "accepts accepting_graph \<and> map_of (integration_stats ?s) ''tool_usage_logs'' = Some 0
        \<and> integration_stats (snd (invoke answering_tool [] ?s)) = integration_stats ?s \<longrightarrow>
        map_of (integration_stats (snd (?once [] ?s))) ''tool_usage_logs'' = Some (0 + 1)
      \<and> map_of (integration_stats (snd (?twice [] ?s))) ''tool_usage_logs'' = Some (0 + 2)"
    by (rule layers [THEN conjunct2, THEN conjunct2, THEN conjunct2, THEN conjunct2,
                     THEN conjunct2, THEN conjunct2, THEN conjunct1])
  with acc c0 quiet_tool
  have counts: "map_of (integration_stats (snd (?once [] ?s))) ''tool_usage_logs'' = Some 1
      \<and> map_of (integration_stats (snd (?twice [] ?s))) ''tool_usage_logs'' = Some 2"
    by simp
  from same counts show ?thesis
    by (simp add: wrapped_once_def wrapped_twice_def)
qed

end
